theory Spec2Isabelle
  imports Main "HOL-Library.AList" "HOL-Library.Char_ord" "HOL-Library.List_Lexorder"
begin

section \<open>Task-manager backend: the daily reset and the state upsert\<close>

text \<open>
  The repository holds one serverless handler (\<^verbatim>\<open>api/state.js\<close>) and an Express
  server (\<^verbatim>\<open>server.js\<close>, with an older copy of it). All of them read a per-user
  document, run \<^verbatim>\<open>applyISTDailyReset\<close> on it, and either answer with it (GET) or
  overlay the request body on it (PUT) before saving.

  The documents are Mongoose documents whose list fields have the schema type
  \<^verbatim>\<open>Array\<close> (mixed content) and whose configuration fields have the type
  \<^verbatim>\<open>Object\<close>, and the request body is parsed JSON, so the values the code handles
  are arbitrary JSON values. They are modelled by the datatype \<open>jsval\<close>.

  The object-document mapper (Mongoose) is not part of the repository. What it does when the
  update request assigns a payload value to a path of the schema, the cast to the type of
  the path and the refusal of \<^verbatim>\<open>save\<close> after a cast that failed, is modelled in the
  subsection on the update request. The reset assigns arrays to array paths and a string to
  a string path, which the cast leaves as they are.
\<close>

subsection \<open>JavaScript values\<close>

text \<open>
  Numbers are abstracted to integers: the program does no arithmetic, it only tests a
  number for truthiness. A string is a list of characters; an object is the list of its
  own properties in property order.
\<close>

datatype jsval =
    JUndefined
  | JNull
  | JBool bool
  | JNum int
  | JStr string
  | JArr "jsval list"
  | JObj "(string \<times> jsval) list"

datatype error = TypeError | ValidationError

text \<open>The truthiness test of \<^verbatim>\<open>?:\<close>, \<^verbatim>\<open>||\<close> and \<^verbatim>\<open>if\<close>.\<close>

fun truthy :: "jsval \<Rightarrow> bool" where
  "truthy JUndefined = False"
| "truthy JNull = False"
| "truthy (JBool b) = b"
| "truthy (JNum n) = (n \<noteq> 0)"
| "truthy (JStr s) = (s \<noteq> [])"
| "truthy (JArr xs) = True"
| "truthy (JObj ps) = True"

text \<open>\<^verbatim>\<open>a ?? b\<close>: the right operand only when the left one is null or undefined.\<close>

definition nullish :: "jsval \<Rightarrow> bool" where
  "nullish v = (v = JNull \<or> v = JUndefined)"

definition coalesce :: "jsval \<Rightarrow> jsval \<Rightarrow> jsval" where
  "coalesce a b = (if nullish a then b else a)"

text \<open>Decimal rendering of a number, as used for the index keys of arrays and strings.\<close>

definition digit_char :: "nat \<Rightarrow> char" where
  "digit_char d = ''0123456789'' ! d"

function decimal :: "nat \<Rightarrow> string" where
  "decimal n = (if n < 10 then [digit_char n] else decimal (n div 10) @ [digit_char (n mod 10)])"
  by pat_completeness auto
termination
  by (relation "measure id") auto

declare decimal.simps [simp del]

fun index_props :: "nat \<Rightarrow> jsval list \<Rightarrow> (string \<times> jsval) list" where
  "index_props i [] = []"
| "index_props i (x # xs) = (decimal i, x) # index_props (Suc i) xs"

text \<open>
  The own enumerable properties of a value, which is what the spread \<^verbatim>\<open>{...v}\<close>
  copies: the properties of an object, the elements of an array under their indices, the
  characters of a string under their indices, and nothing for the other values
  (\<^verbatim>\<open>null\<close> and \<^verbatim>\<open>undefined\<close> included).
\<close>

fun own_props :: "jsval \<Rightarrow> (string \<times> jsval) list" where
  "own_props (JObj ps) = ps"
| "own_props (JArr xs) = index_props 0 xs"
| "own_props (JStr s) = index_props 0 (map (\<lambda>c. JStr [c]) s)"
| "own_props v = []"

definition lookup :: "(string \<times> jsval) list \<Rightarrow> string \<Rightarrow> jsval" where
  "lookup ps k = (case map_of ps k of None \<Rightarrow> JUndefined | Some v \<Rightarrow> v)"

text \<open>
  The property read \<^verbatim>\<open>v.k\<close> for a data property name \<open>k\<close> (the program reads
  \<^verbatim>\<open>units\<close> and \<^verbatim>\<open>length\<close>): reading from \<^verbatim>\<open>null\<close> or
  \<^verbatim>\<open>undefined\<close> throws.
\<close>

fun getProp :: "jsval \<Rightarrow> string \<Rightarrow> error + jsval" where
  "getProp JUndefined k = Inl TypeError"
| "getProp JNull k = Inl TypeError"
| "getProp (JArr xs) k =
     Inr (if k = ''length'' then JNum (int (length xs)) else lookup (own_props (JArr xs)) k)"
| "getProp (JStr s) k =
     Inr (if k = ''length'' then JNum (int (length s)) else lookup (own_props (JStr s)) k)"
| "getProp v k = Inr (lookup (own_props v) k)"

text \<open>\<^verbatim>\<open>v?.length\<close>: undefined for a null or undefined \<open>v\<close>, the property otherwise.\<close>

definition opt_length :: "jsval \<Rightarrow> jsval" where
  "opt_length v = (if nullish v then JUndefined
                   else (case getProp v ''length'' of Inl e \<Rightarrow> JUndefined | Inr n \<Rightarrow> n))"

text \<open>
  \<^verbatim>\<open>v.map(f)\<close>: only an array has a callable \<^verbatim>\<open>map\<close>; on any other value the call
  throws. An exception thrown by \<open>f\<close> ends the iteration.
\<close>

fun map_result :: "('a \<Rightarrow> error + 'b) \<Rightarrow> 'a list \<Rightarrow> error + 'b list" where
  "map_result f [] = Inr []"
| "map_result f (x # xs) =
     (case f x of
        Inl e \<Rightarrow> Inl e
      | Inr y \<Rightarrow> (case map_result f xs of Inl e \<Rightarrow> Inl e | Inr ys \<Rightarrow> Inr (y # ys)))"

fun js_map :: "(jsval \<Rightarrow> error + jsval) \<Rightarrow> jsval \<Rightarrow> error + jsval" where
  "js_map f (JArr xs) = (case map_result f xs of Inl e \<Rightarrow> Inl e | Inr ys \<Rightarrow> Inr (JArr ys))"
| "js_map f v = Inl TypeError"

subsection \<open>The default templates\<close>

definition task :: "int \<Rightarrow> string \<Rightarrow> jsval" where
  "task i l = JObj [(''id'', JNum i), (''label'', JStr l), (''completed'', JBool False)]"

definition unit_item :: "string \<Rightarrow> string \<Rightarrow> jsval" where
  "unit_item i l = JObj [(''id'', JStr i), (''label'', JStr l), (''completed'', JBool False)]"

definition defaultBodyTasks :: "jsval list" where
  "defaultBodyTasks =
     [task 1 ''Push ups'', task 2 ''Pull ups'', task 3 ''Crunches'', task 4 ''Crucifix'',
      task 5 ''Russian Twists'', task 6 ''Biceps'', task 7 ''Shoulders'', task 8 ''Triceps'',
      task 9 ''Forearms'', task 10 ''Calisthenics'']"

definition defaultSkinTasks :: "jsval list" where
  "defaultSkinTasks =
     [task 1 ''Body Wash'', task 2 ''Face Wash'', task 3 ''Clean'', task 4 ''Face Serum'',
      task 5 ''Eye Blow Cleaning'']"

definition defaultMindSubjects :: "jsval list" where
  "defaultMindSubjects =
     [JObj [(''id'', JStr ''dsa''), (''label'', JStr ''DSA''),
            (''units'', JArr [unit_item ''dsa-u1'' ''U1'', unit_item ''dsa-u2'' ''U2'',
                              unit_item ''dsa-u3'' ''U3'', unit_item ''dsa-u4'' ''U4'']),
            (''links'', JArr [])]]"

subsection \<open>The stored document\<close>

text \<open>
  The fields of \<^verbatim>\<open>AppStateSchema\<close> in \<^verbatim>\<open>api/state.js\<close>. The schema of
  \<^verbatim>\<open>server.js\<close> has no \<^verbatim>\<open>mindLastReminderDay\<close>, \<^verbatim>\<open>weightInput\<close> and
  \<^verbatim>\<open>muscleProgress\<close>; its code never reads or writes them.
\<close>

record doc =
  userId :: string
  plannerTasks :: jsval
  bodyTasks :: jsval
  skinTasks :: jsval
  skinSessions :: jsval
  mindSubjects :: jsval
  reminderSettings :: jsval
  mindReminderTimes :: jsval
  mindReminderEnabled :: jsval
  mindLastReminderDay :: jsval
  weightInput :: jsval
  muscleProgress :: jsval
  istDayKey :: string

subsection \<open>The daily reset\<close>

text \<open>\<^verbatim>\<open>(t) => ({ ...t, completed: false })\<close>\<close>

definition reset_item :: "jsval \<Rightarrow> jsval" where
  "reset_item t = JObj (AList.update ''completed'' (JBool False) (own_props t))"

text \<open>
  \<^verbatim>\<open>(s) => ({ ...s, units: (s.units || []).map((u) => ({ ...u, completed: false })) })\<close>
\<close>

definition reset_subject :: "jsval \<Rightarrow> error + jsval" where
  "reset_subject s =
     (case getProp s ''units'' of
        Inl e \<Rightarrow> Inl e
      | Inr u \<Rightarrow>
         (case js_map (\<lambda>u. Inr (reset_item u)) (if truthy u then u else JArr []) of
            Inl e \<Rightarrow> Inl e
          | Inr us \<Rightarrow> Inr (JObj (AList.update ''units'' us (own_props s)))))"

text \<open>\<^verbatim>\<open>c?.length ? c : dflt\<close>\<close>

definition or_default :: "jsval \<Rightarrow> jsval list \<Rightarrow> jsval" where
  "or_default c dflt = (if truthy (opt_length c) then c else JArr dflt)"

text \<open>
  \<^verbatim>\<open>applyISTDailyReset(doc)\<close>. Its first statement reads the clock through
  \<^verbatim>\<open>getISTDayKey()\<close>; the day-key read there is the parameter \<open>todayIST\<close>. The
  function assigns to the document it was given; the model returns the updated document,
  and an exception leaves no result.
\<close>

definition applyISTDailyReset :: "string \<Rightarrow> doc \<Rightarrow> error + doc" where
  "applyISTDailyReset todayIST d =
     (if istDayKey d \<noteq> todayIST then
        (case js_map (\<lambda>t. Inr (reset_item t)) (or_default (bodyTasks d) defaultBodyTasks) of
           Inl e \<Rightarrow> Inl e
         | Inr b \<Rightarrow>
        (case js_map (\<lambda>t. Inr (reset_item t)) (or_default (skinTasks d) defaultSkinTasks) of
           Inl e \<Rightarrow> Inl e
         | Inr s \<Rightarrow>
        (case js_map reset_subject (or_default (mindSubjects d) defaultMindSubjects) of
           Inl e \<Rightarrow> Inl e
         | Inr m \<Rightarrow>
            Inr (d\<lparr>bodyTasks := b, skinTasks := s, mindSubjects := m, istDayKey := todayIST\<rparr>))))
      else Inr d)"

subsection \<open>The day-key\<close>

text \<open>
  \<^verbatim>\<open>getISTDayKey()\<close> asks the runtime's \<^verbatim>\<open>Intl.DateTimeFormat\<close> for the parts of
  the current date and puts the year, the month and the day together:
  \<^verbatim>\<open>
  const y = parts.find((p) => p.type === "year")?.value || "0000";
  const m = parts.find((p) => p.type === "month")?.value || "00";
  const d = parts.find((p) => p.type === "day")?.value || "00";
  return `${y}-${m}-${d}`;
  \<close>
  A part is a pair of its type and its value. A part that is missing, or whose value is the
  empty string, is replaced by the fallback.
\<close>

definition part_value :: "(string \<times> string) list \<Rightarrow> string \<Rightarrow> string \<Rightarrow> string" where
  "part_value parts ty dflt =
     (case find (\<lambda>p. fst p = ty) parts of
        None \<Rightarrow> dflt
      | Some p \<Rightarrow> if snd p = [] then dflt else snd p)"

definition dayKey_of_parts :: "(string \<times> string) list \<Rightarrow> string" where
  "dayKey_of_parts parts =
     (let y = part_value parts ''year'' ''0000'';
          m = part_value parts ''month'' ''00'';
          d = part_value parts ''day'' ''00''
      in y @ ''-'' @ m @ ''-'' @ d)"

text \<open>
  The formatter belongs to the JavaScript runtime, not to the repository. What it returns
  for the options of \<^verbatim>\<open>getISTDayKey\<close> (locale \<^verbatim>\<open>en-US\<close>, time zone
  \<^verbatim>\<open>Asia/Kolkata\<close>, numeric year, two-digit month and day) is modelled here from the
  runtime's documentation (ECMA-402 and the time zone database): the date of the Gregorian
  calendar at the zone's offset, as the parts month, \<^verbatim>\<open>/\<close>, day, \<^verbatim>\<open>/\<close>,
  year; month and day padded to two digits; the year written in full, without padding, and
  as the year of its era before the year 1. The zone has been at UTC+5:30, without daylight
  saving time, since 14 October 1945, 17:30 UTC; the model uses this offset and so describes
  the runtime for the instants from then on. An instant is a number of milliseconds since
  the epoch, as \<^verbatim>\<open>new Date()\<close> reads it from the clock.

  The calendar: \<open>year_and_day\<close> splits a number of days since 1 March of the year 0 into
  the year that begins on 1 March and the day of that year, by cycles of 400 years
  (146097 days), centuries (36524 days, the fourth one longer by a day), groups of four
  years (1461 days) and years (365 days, the fourth one longer by a day);
  \<open>month_and_day\<close> splits the day of such a year into month and day of the month.
\<close>

definition year_and_day :: "int \<Rightarrow> int \<times> int" where
  "year_and_day z =
     (let era = z div 146097;
          doe = z mod 146097;
          c = min 3 (doe div 36524);
          r1 = doe - 36524 * c;
          q = r1 div 1461;
          r2 = r1 - 1461 * q;
          t = min 3 (r2 div 365)
      in (400 * era + 100 * c + 4 * q + t, r2 - 365 * t))"

definition month_and_day :: "int \<Rightarrow> int \<times> int" where
  "month_and_day doy =
     (let mp = (5 * doy + 2) div 153
      in (if mp < 10 then mp + 3 else mp - 9, doy - (153 * mp + 2) div 5 + 1))"

text \<open>The date of a day, counted from 1 January 1970.\<close>

definition civil_from_days :: "int \<Rightarrow> int \<times> int \<times> int" where
  "civil_from_days days =
     (case year_and_day (days + 719468) of
        (y, doy) \<Rightarrow>
          (case month_and_day doy of
             (m, d) \<Rightarrow> (if m \<le> 2 then y + 1 else y, m, d)))"

text \<open>The calendar date of an instant at UTC+5:30 (19800000 milliseconds ahead of UTC).\<close>

definition ist_date :: "int \<Rightarrow> int \<times> int \<times> int" where
  "ist_date now = civil_from_days ((now + 19800000) div 86400000)"

definition two_digit :: "nat \<Rightarrow> string" where
  "two_digit n = (if n < 10 then CHR ''0'' # decimal n else decimal n)"

definition formatToParts :: "int \<Rightarrow> (string \<times> string) list" where
  "formatToParts now =
     (case ist_date now of
        (y, m, d) \<Rightarrow>
          [(''month'', two_digit (nat m)), (''literal'', ''/''),
           (''day'', two_digit (nat d)), (''literal'', ''/''),
           (''year'', decimal (nat (if 1 \<le> y then y else 1 - y)))])"

text \<open>\<^verbatim>\<open>getISTDayKey()\<close>, called when the clock shows the instant \<open>now\<close>.\<close>

definition getISTDayKey :: "int \<Rightarrow> string" where
  "getISTDayKey now = dayKey_of_parts (formatToParts now)"

text \<open>
  The format that the specification names, written out for comparison with what the code
  returns: \<^verbatim>\<open>YYYY-MM-DD\<close>, a year of four digits, a month and a day of two digits;
  and the order of dates.
\<close>

definition digits2 :: "nat \<Rightarrow> string" where
  "digits2 n = [digit_char (n div 10), digit_char (n mod 10)]"

definition digits4 :: "nat \<Rightarrow> string" where
  "digits4 n = digits2 (n div 100) @ digits2 (n mod 100)"

definition iso_date :: "int \<times> int \<times> int \<Rightarrow> string" where
  "iso_date t =
     (case t of
        (y, m, d) \<Rightarrow> digits4 (nat y) @ ''-'' @ digits2 (nat m) @ ''-'' @ digits2 (nat d))"

fun date_less :: "int \<times> int \<times> int \<Rightarrow> int \<times> int \<times> int \<Rightarrow> bool" where
  "date_less (y, m, d) (y', m', d') =
     (y < y' \<or> (y = y' \<and> (m < m' \<or> (m = m' \<and> d < d'))))"

subsection \<open>The update request (PUT)\<close>

text \<open>
  The collection of documents, as \<^verbatim>\<open>AppState.findOne({ userId })\<close> and
  \<^verbatim>\<open>doc.save()\<close> use it: at most one document for a user identifier. Failures of the
  connection and of the storage are outside the repository and are not modelled.
\<close>

type_synonym store = "string \<Rightarrow> doc option"

datatype response = Status200 jsval | Status500

text \<open>
  \<^verbatim>\<open>payload.k\<close> for \<^verbatim>\<open>payload = req.body || {}\<close>. The payload is truthy, so it is
  neither null nor undefined and the read does not throw.
\<close>

definition or_empty :: "jsval \<Rightarrow> jsval" where
  "or_empty body = (if truthy body then body else JObj [])"

definition read_prop :: "jsval \<Rightarrow> string \<Rightarrow> jsval" where
  "read_prop v k = (case getProp v k of Inl e \<Rightarrow> JUndefined | Inr x \<Rightarrow> x)"

text \<open>
  \<^verbatim>\<open>new AppState({ userId })\<close> with the defaults of the schema of
  \<^verbatim>\<open>api/state.js\<close>, and with those of \<^verbatim>\<open>server.js\<close>, whose schema does not have
  the last three paths.
\<close>

definition defaultReminderSettings :: jsval where
  "defaultReminderSettings =
     JObj [(''enabled'', JBool True), (''skinTime'', JStr ''21:00''), (''bodyTime'', JStr ''19:00'')]"

definition new_AppState :: "string \<Rightarrow> doc" where
  "new_AppState uid =
     \<lparr>userId = uid, plannerTasks = JArr [], bodyTasks = JArr [], skinTasks = JArr [],
      skinSessions = JNum 0, mindSubjects = JArr [],
      reminderSettings = defaultReminderSettings,
      mindReminderTimes = JObj [], mindReminderEnabled = JObj [],
      mindLastReminderDay = JObj [], weightInput = JStr [], muscleProgress = JObj [],
      istDayKey = []\<rparr>"

definition new_AppState_server :: "string \<Rightarrow> doc" where
  "new_AppState_server uid =
     \<lparr>userId = uid, plannerTasks = JArr [], bodyTasks = JArr [], skinTasks = JArr [],
      skinSessions = JNum 0, mindSubjects = JArr [],
      reminderSettings = defaultReminderSettings,
      mindReminderTimes = JObj [], mindReminderEnabled = JObj [],
      mindLastReminderDay = JUndefined, weightInput = JUndefined, muscleProgress = JUndefined,
      istDayKey = []\<rparr>"

text \<open>
  The casts of the mapper. An assignment to a path of a document casts the assigned value to
  the type that the schema declares for the path. A cast that fails is recorded on the
  document, and \<^verbatim>\<open>doc.save()\<close> then rejects with a validation error without
  writing anything. The casts are modelled from the library, for JSON values:
  \<^item> type \<^verbatim>\<open>Array\<close> (\<^verbatim>\<open>plannerTasks\<close>, \<^verbatim>\<open>bodyTasks\<close>,
    \<^verbatim>\<open>skinTasks\<close>, \<^verbatim>\<open>mindSubjects\<close>): an array is kept, with its elements
    as they are; any other value becomes the array of that one value;
  \<^item> type \<^verbatim>\<open>Number\<close> (\<^verbatim>\<open>skinSessions\<close>): an object with an \<^verbatim>\<open>_id\<close> stands
    for its \<^verbatim>\<open>_id\<close>; the empty string becomes \<^verbatim>\<open>null\<close>; any other string
    and a boolean are converted by the language's \<^verbatim>\<open>Number()\<close>, and the cast fails
    on \<^verbatim>\<open>NaN\<close>; an array and an object fail;
  \<^item> type \<^verbatim>\<open>String\<close> (\<^verbatim>\<open>weightInput\<close>): an object whose \<^verbatim>\<open>_id\<close> is a
    non-empty string stands for it; a number and a boolean are written out; an array and
    any other object fail;
  \<^item> type \<^verbatim>\<open>Object\<close> (the other fields): every value is kept.

  The conversion of a non-empty string by \<^verbatim>\<open>Number()\<close> belongs to the language; it is
  the parameter \<open>toNumber\<close>, with \<open>None\<close> for \<^verbatim>\<open>NaN\<close>.
\<close>

definition cast_array :: "jsval \<Rightarrow> error + jsval" where
  "cast_array v = (case v of JArr xs \<Rightarrow> Inr (JArr xs) | _ \<Rightarrow> Inr (JArr [v]))"

definition cast_number :: "(string \<Rightarrow> int option) \<Rightarrow> jsval \<Rightarrow> error + jsval" where
  "cast_number toNumber v =
     (case (if truthy v \<and> read_prop v ''_id'' \<noteq> JUndefined then read_prop v ''_id'' else v) of
        JUndefined \<Rightarrow> Inr JUndefined
      | JNull \<Rightarrow> Inr JNull
      | JBool b \<Rightarrow> Inr (JNum (if b then 1 else 0))
      | JNum n \<Rightarrow> Inr (JNum n)
      | JStr s \<Rightarrow>
          (if s = [] then Inr JNull
           else (case toNumber s of None \<Rightarrow> Inl ValidationError | Some n \<Rightarrow> Inr (JNum n)))
      | JArr xs \<Rightarrow> Inl ValidationError
      | JObj ps \<Rightarrow> Inl ValidationError)"

text \<open>
  \<^verbatim>\<open>String(n)\<close> for an integer (of less than 22 digits; a larger one is written with
  an exponent).
\<close>

definition int_to_string :: "int \<Rightarrow> string" where
  "int_to_string n = (if n < 0 then CHR ''-'' # decimal (nat (- n)) else decimal (nat n))"

definition cast_string :: "jsval \<Rightarrow> error + jsval" where
  "cast_string v =
     (case v of
        JUndefined \<Rightarrow> Inr JUndefined
      | JNull \<Rightarrow> Inr JNull
      | JBool b \<Rightarrow> Inr (JStr (if b then ''true'' else ''false''))
      | JNum n \<Rightarrow> Inr (JStr (int_to_string n))
      | JStr s \<Rightarrow> Inr (JStr s)
      | JArr xs \<Rightarrow> Inl ValidationError
      | JObj ps \<Rightarrow>
          (case lookup ps ''_id'' of
             JStr i \<Rightarrow> if i = [] then Inl ValidationError else Inr (JStr i)
           | _ \<Rightarrow> Inl ValidationError))"

definition cast_mixed :: "jsval \<Rightarrow> error + jsval" where
  "cast_mixed v = Inr v"

text \<open>
  \<^verbatim>\<open>doc.f = payload.f ?? doc.f\<close> on a path with the cast \<open>cast\<close>, for the payload
  value \<open>p\<close> and the current value \<open>cur\<close> of the path. When \<open>p\<close> is null or undefined
  the path is assigned its own value, which was cast when it was stored and stays as it is;
  any other \<open>p\<close> is cast. The result is the value of the path after the assignment, or
  the error with which \<^verbatim>\<open>save\<close> rejects.
\<close>

definition assign_path :: "(jsval \<Rightarrow> error + jsval) \<Rightarrow> jsval \<Rightarrow> jsval \<Rightarrow> error + jsval" where
  "assign_path cast p cur =
     (let v = coalesce p cur in if nullish p then Inr v else cast v)"

definition and_then :: "error + 'a \<Rightarrow> ('a \<Rightarrow> error + 'b) \<Rightarrow> error + 'b" where
  "and_then m f = (case m of Inl e \<Rightarrow> Inl e | Inr x \<Rightarrow> f x)"

text \<open>
  The assignments \<^verbatim>\<open>doc.f = payload.f ?? doc.f\<close> of the handler of
  \<^verbatim>\<open>api/state.js\<close> (eleven fields), each with the cast of its path in the schema of
  that file. Each assignment reads the payload and its own field only, so their order does
  not matter. The result is the document as \<^verbatim>\<open>doc.save()\<close> writes it, or the
  validation error with which \<^verbatim>\<open>doc.save()\<close> rejects.
\<close>

definition overlay :: "(string \<Rightarrow> int option) \<Rightarrow> jsval \<Rightarrow> doc \<Rightarrow> error + doc" where
  "overlay toNumber payload d =
     and_then (assign_path cast_array (read_prop payload ''plannerTasks'') (plannerTasks d))
       (\<lambda>v1.
     and_then (assign_path cast_array (read_prop payload ''bodyTasks'') (bodyTasks d))
       (\<lambda>v2.
     and_then (assign_path cast_array (read_prop payload ''skinTasks'') (skinTasks d))
       (\<lambda>v3.
     and_then
       (assign_path (cast_number toNumber) (read_prop payload ''skinSessions'') (skinSessions d))
       (\<lambda>v4.
     and_then (assign_path cast_array (read_prop payload ''mindSubjects'') (mindSubjects d))
       (\<lambda>v5.
     and_then
       (assign_path cast_mixed (read_prop payload ''reminderSettings'') (reminderSettings d))
       (\<lambda>v6.
     and_then
       (assign_path cast_mixed (read_prop payload ''mindReminderTimes'') (mindReminderTimes d))
       (\<lambda>v7.
     and_then
       (assign_path cast_mixed (read_prop payload ''mindReminderEnabled'')
          (mindReminderEnabled d))
       (\<lambda>v8.
     and_then
       (assign_path cast_mixed (read_prop payload ''mindLastReminderDay'')
          (mindLastReminderDay d))
       (\<lambda>v9.
     and_then (assign_path cast_string (read_prop payload ''weightInput'') (weightInput d))
       (\<lambda>v10.
     and_then (assign_path cast_mixed (read_prop payload ''muscleProgress'') (muscleProgress d))
       (\<lambda>v11.
     Inr (d\<lparr>plannerTasks := v1, bodyTasks := v2, skinTasks := v3, skinSessions := v4,
             mindSubjects := v5, reminderSettings := v6, mindReminderTimes := v7,
             mindReminderEnabled := v8, mindLastReminderDay := v9, weightInput := v10,
             muscleProgress := v11\<rparr>))))))))))))"

text \<open>
  The assignments of \<^verbatim>\<open>app.put("/api/state")\<close> in \<^verbatim>\<open>server.js\<close> (eight fields),
  with the casts of the schema of that file.
\<close>

definition overlay_server :: "(string \<Rightarrow> int option) \<Rightarrow> jsval \<Rightarrow> doc \<Rightarrow> error + doc" where
  "overlay_server toNumber payload d =
     and_then (assign_path cast_array (read_prop payload ''plannerTasks'') (plannerTasks d))
       (\<lambda>v1.
     and_then (assign_path cast_array (read_prop payload ''bodyTasks'') (bodyTasks d))
       (\<lambda>v2.
     and_then (assign_path cast_array (read_prop payload ''skinTasks'') (skinTasks d))
       (\<lambda>v3.
     and_then
       (assign_path (cast_number toNumber) (read_prop payload ''skinSessions'') (skinSessions d))
       (\<lambda>v4.
     and_then (assign_path cast_array (read_prop payload ''mindSubjects'') (mindSubjects d))
       (\<lambda>v5.
     and_then
       (assign_path cast_mixed (read_prop payload ''reminderSettings'') (reminderSettings d))
       (\<lambda>v6.
     and_then
       (assign_path cast_mixed (read_prop payload ''mindReminderTimes'') (mindReminderTimes d))
       (\<lambda>v7.
     and_then
       (assign_path cast_mixed (read_prop payload ''mindReminderEnabled'')
          (mindReminderEnabled d))
       (\<lambda>v8.
     Inr (d\<lparr>plannerTasks := v1, bodyTasks := v2, skinTasks := v3, skinSessions := v4,
             mindSubjects := v5, reminderSettings := v6, mindReminderTimes := v7,
             mindReminderEnabled := v8\<rparr>)))))))))"

text \<open>
  The PUT branch of \<^verbatim>\<open>handler\<close> in \<^verbatim>\<open>api/state.js\<close>: find the document or make
  a new one, reset, overlay, save, answer \<^verbatim>\<open>{ ok: true }\<close>. An exception of the reset
  and a rejection of \<^verbatim>\<open>doc.save()\<close> are caught and answered with status 500; nothing
  has been saved then.
\<close>

definition handler_put ::
  "(string \<Rightarrow> int option) \<Rightarrow> string \<Rightarrow> store \<Rightarrow> string \<Rightarrow> jsval \<Rightarrow> response \<times> store" where
  "handler_put toNumber todayIST st uid body =
     (let payload = or_empty body;
          d = (case st uid of None \<Rightarrow> new_AppState uid | Some d \<Rightarrow> d)
      in case applyISTDailyReset todayIST d of
           Inl e \<Rightarrow> (Status500, st)
         | Inr d' \<Rightarrow>
             (case overlay toNumber payload d' of
                Inl e \<Rightarrow> (Status500, st)
              | Inr d'' \<Rightarrow> (Status200 (JObj [(''ok'', JBool True)]), st(uid \<mapsto> d''))))"

text \<open>\<^verbatim>\<open>app.put("/api/state")\<close> in \<^verbatim>\<open>server.js\<close>, and in its older copy.\<close>

definition app_put ::
  "(string \<Rightarrow> int option) \<Rightarrow> string \<Rightarrow> store \<Rightarrow> string \<Rightarrow> jsval \<Rightarrow> response \<times> store" where
  "app_put toNumber todayIST st uid body =
     (let payload = or_empty body;
          d = (case st uid of None \<Rightarrow> new_AppState_server uid | Some d \<Rightarrow> d)
      in case applyISTDailyReset todayIST d of
           Inl e \<Rightarrow> (Status500, st)
         | Inr d' \<Rightarrow>
             (case overlay_server toNumber payload d' of
                Inl e \<Rightarrow> (Status500, st)
              | Inr d'' \<Rightarrow> (Status200 (JObj [(''ok'', JBool True)]), st(uid \<mapsto> d''))))"

text \<open>The fields that the two overlays assign, each with its reader.\<close>

definition overlay_fields_server :: "(string \<times> (doc \<Rightarrow> jsval)) list" where
  "overlay_fields_server =
     [(''plannerTasks'', plannerTasks), (''bodyTasks'', bodyTasks), (''skinTasks'', skinTasks),
      (''skinSessions'', skinSessions), (''mindSubjects'', mindSubjects),
      (''reminderSettings'', reminderSettings), (''mindReminderTimes'', mindReminderTimes),
      (''mindReminderEnabled'', mindReminderEnabled)]"

definition overlay_fields :: "(string \<times> (doc \<Rightarrow> jsval)) list" where
  "overlay_fields =
     overlay_fields_server @
     [(''mindLastReminderDay'', mindLastReminderDay), (''weightInput'', weightInput),
      (''muscleProgress'', muscleProgress)]"

subsection \<open>What the reset keeps of an item\<close>

text \<open>
  \<open>fields_except k x y\<close>: the values \<open>x\<close> and \<open>y\<close> have the same properties, with the
  same values and in the same order, apart from the property \<open>k\<close>.
\<close>

definition fields_except :: "string \<Rightarrow> jsval \<Rightarrow> jsval \<Rightarrow> bool" where
  "fields_except k x y = (AList.delete k (own_props y) = AList.delete k (own_props x))"

definition item_kept :: "jsval \<Rightarrow> jsval \<Rightarrow> bool" where
  "item_kept x y =
     (fields_except ''completed'' x y \<and>
      lookup (own_props y) ''id'' = lookup (own_props x) ''id'' \<and>
      lookup (own_props y) ''label'' = lookup (own_props x) ''label'')"

text \<open>
  A collection against the collection after the reset: item by item, for the items the
  collection has (an empty collection has none).
\<close>

definition items_kept :: "(jsval \<Rightarrow> jsval \<Rightarrow> bool) \<Rightarrow> jsval \<Rightarrow> jsval \<Rightarrow> bool" where
  "items_kept P c c' =
     (case c of
        JArr (x # xs) \<Rightarrow> (case c' of JArr ys \<Rightarrow> list_all2 P (x # xs) ys | _ \<Rightarrow> False)
      | _ \<Rightarrow> True)"

definition subject_kept :: "jsval \<Rightarrow> jsval \<Rightarrow> bool" where
  "subject_kept s s' =
     (fields_except ''units'' s s' \<and>
      lookup (own_props s') ''id'' = lookup (own_props s) ''id'' \<and>
      lookup (own_props s') ''label'' = lookup (own_props s) ''label'' \<and>
      lookup (own_props s') ''links'' = lookup (own_props s) ''links'' \<and>
      items_kept item_kept (lookup (own_props s) ''units'') (lookup (own_props s') ''units''))"

text \<open>Whether every item of a list has \<^verbatim>\<open>completed: false\<close>.\<close>

definition all_incomplete :: "jsval list \<Rightarrow> bool" where
  "all_incomplete ts = list_all (\<lambda>t. lookup (own_props t) ''completed'' = JBool False) ts"

definition all_units_incomplete :: "jsval list \<Rightarrow> bool" where
  "all_units_incomplete ss =
     list_all (\<lambda>s. case lookup (own_props s) ''units'' of
                      JArr us \<Rightarrow> all_incomplete us
                    | _ \<Rightarrow> False) ss"

text \<open>
  A subject on which \<^verbatim>\<open>reset_subject\<close> does not throw: it is neither null nor
  undefined, and its \<^verbatim>\<open>units\<close> are an array or falsy.
\<close>

fun is_array :: "jsval \<Rightarrow> bool" where
  "is_array (JArr xs) = True"
| "is_array v = False"

definition subject_ok :: "jsval \<Rightarrow> bool" where
  "subject_ok s =
     (\<not> nullish s \<and>
      (\<not> truthy (lookup (own_props s) ''units'') \<or> is_array (lookup (own_props s) ''units'')))"

subsection \<open>Example documents\<close>

text \<open>
  A document last reset on 1 January 2024, with items ticked, and the same document as the
  reset of 2 January leaves it.
\<close>

definition stale_doc :: doc where
  "stale_doc =
     \<lparr>userId = ''alice'', plannerTasks = JArr [],
      bodyTasks =
        JArr [JObj [(''id'', JNum 1), (''label'', JStr ''Push ups''), (''completed'', JBool True)],
              JObj [(''id'', JNum 2), (''label'', JStr ''Pull ups''), (''completed'', JBool False)]],
      skinTasks =
        JArr [JObj [(''id'', JNum 1), (''label'', JStr ''Body Wash''), (''completed'', JBool True)]],
      skinSessions = JNum 3,
      mindSubjects =
        JArr [JObj [(''id'', JStr ''dsa''), (''label'', JStr ''DSA''),
                    (''units'',
                     JArr [JObj [(''id'', JStr ''dsa-u1''), (''label'', JStr ''U1''),
                                 (''completed'', JBool True)]]),
                    (''links'', JArr [JStr ''https://example.org''])]],
      reminderSettings = defaultReminderSettings,
      mindReminderTimes = JObj [], mindReminderEnabled = JObj [],
      mindLastReminderDay = JObj [], weightInput = JStr ''70'', muscleProgress = JObj [],
      istDayKey = ''2024-01-01''\<rparr>"

definition fresh_doc :: doc where
  "fresh_doc =
     stale_doc
      \<lparr>bodyTasks :=
         JArr [JObj [(''id'', JNum 1), (''label'', JStr ''Push ups''), (''completed'', JBool False)],
               JObj [(''id'', JNum 2), (''label'', JStr ''Pull ups''), (''completed'', JBool False)]],
       skinTasks :=
         JArr [JObj [(''id'', JNum 1), (''label'', JStr ''Body Wash''), (''completed'', JBool False)]],
       mindSubjects :=
         JArr [JObj [(''id'', JStr ''dsa''), (''label'', JStr ''DSA''),
                     (''units'',
                      JArr [JObj [(''id'', JStr ''dsa-u1''), (''label'', JStr ''U1''),
                                  (''completed'', JBool False)]]),
                     (''links'', JArr [JStr ''https://example.org''])]],
       istDayKey := ''2024-01-02''\<rparr>"

text \<open>A new document after its first reset: every collection is the default template.\<close>

definition seeded_doc :: "string \<Rightarrow> string \<Rightarrow> doc" where
  "seeded_doc uid k =
     (new_AppState uid)
      \<lparr>bodyTasks := JArr defaultBodyTasks, skinTasks := JArr defaultSkinTasks,
       mindSubjects := JArr defaultMindSubjects, istDayKey := k\<rparr>"

text \<open>A document whose body tasks were emptied by an update on the day of its last reset.\<close>

definition emptied_doc :: doc where
  "emptied_doc = fresh_doc\<lparr>bodyTasks := JArr []\<rparr>"

text \<open>A document that holds \<^verbatim>\<open>null\<close> in a field.\<close>

definition null_weight_doc :: doc where
  "null_weight_doc = fresh_doc\<lparr>weightInput := JNull\<rparr>"

text \<open>A request body that gives \<^verbatim>\<open>null\<close> for one field and a value for another.\<close>

definition clearing_payload :: jsval where
  "clearing_payload = JObj [(''skinSessions'', JNull), (''weightInput'', JStr ''72'')]"

text \<open>A request body that gives the empty string for the counter.\<close>

definition empty_string_payload :: jsval where
  "empty_string_payload = JObj [(''skinSessions'', JStr [])]"

section \<open>Properties of the daily reset\<close>

subsection \<open>Auxiliary facts\<close>

lemma reset_same_day: "istDayKey d = k \<Longrightarrow> applyISTDailyReset k d = Inr d"
  by (simp add: applyISTDailyReset_def)

lemma reset_sets_key: "applyISTDailyReset k d = Inr d' \<Longrightarrow> istDayKey d' = k"
  by (auto simp: applyISTDailyReset_def split: if_splits sum.splits)

lemma reset_cases:
  assumes "applyISTDailyReset k d = Inr d'"
  obtains (same) "istDayKey d = k" "d' = d"
  | (reset) b s m where "istDayKey d \<noteq> k"
      "js_map (\<lambda>t. Inr (reset_item t)) (or_default (bodyTasks d) defaultBodyTasks) = Inr b"
      "js_map (\<lambda>t. Inr (reset_item t)) (or_default (skinTasks d) defaultSkinTasks) = Inr s"
      "js_map reset_subject (or_default (mindSubjects d) defaultMindSubjects) = Inr m"
      "d' = d\<lparr>bodyTasks := b, skinTasks := s, mindSubjects := m, istDayKey := k\<rparr>"
  using assms by (auto simp: applyISTDailyReset_def split: if_splits sum.splits)

lemma map_result_pure: "map_result (\<lambda>x. Inr (f x)) xs = Inr (map f xs)"
  by (induction xs) auto

lemma js_map_pure:
  "js_map (\<lambda>x. Inr (f x)) v = Inr w \<longleftrightarrow> (\<exists>xs. v = JArr xs \<and> w = JArr (map f xs))"
  by (cases v) (auto simp: map_result_pure)

lemma map_result_all2:
  "map_result f xs = Inr ys \<Longrightarrow> list_all2 (\<lambda>x y. f x = Inr y) xs ys"
  by (induction xs arbitrary: ys) (auto split: sum.splits)

lemma or_default_Nil: "or_default (JArr []) dflt = JArr dflt"
  by (simp add: or_default_def opt_length_def nullish_def)

lemma or_default_Cons: "or_default (JArr (x # xs)) dflt = JArr (x # xs)"
  by (simp add: or_default_def opt_length_def nullish_def)

lemma lookup_update_other: "k' \<noteq> k \<Longrightarrow> lookup (AList.update k v ps) k' = lookup ps k'"
  by (simp add: lookup_def update_conv')

lemma lookup_update_same: "lookup (AList.update k v ps) k = v"
  by (simp add: lookup_def update_conv')

lemma stale_reset: "applyISTDailyReset ''2024-01-02'' stale_doc = Inr fresh_doc"
  by (simp add: applyISTDailyReset_def stale_doc_def fresh_doc_def or_default_def
      opt_length_def nullish_def reset_item_def reset_subject_def lookup_def)

subsection \<open>Idempotence and the same-day case\<close>

text \<open>
  Claim C1. Reconciling twice with the same day-key is reconciling once: the second
  application, run on the result of the first, returns that result; and where the first
  application throws there is no result to reconcile again.
\<close>

theorem reset_idempotent:
  "(case applyISTDailyReset k d of Inl e \<Rightarrow> Inl e | Inr d' \<Rightarrow> applyISTDailyReset k d')
   = applyISTDailyReset k d"
  by (auto split: sum.splits dest: reset_sets_key simp: reset_same_day)

theorem reset_idempotent_witness:
  "applyISTDailyReset ''2024-01-02'' fresh_doc = applyISTDailyReset ''2024-01-02'' stale_doc"
  using reset_idempotent [of "''2024-01-02''" stale_doc] by (simp add: stale_reset)

text \<open>
  Claim C2. When the stored day-key equals today's, the reset returns the document it was
  given, with every field as it was.
\<close>

theorem reset_noop_same_day:
  "istDayKey d = k \<Longrightarrow> applyISTDailyReset k d = Inr d"
  unfolding applyISTDailyReset_def by simp

theorem reset_noop_same_day_witness:
  "istDayKey fresh_doc = ''2024-01-02'' \<and> applyISTDailyReset ''2024-01-02'' fresh_doc = Inr fresh_doc"
proof -
  have k: "istDayKey fresh_doc = ''2024-01-02''" by (simp add: fresh_doc_def)
  show ?thesis using k reset_noop_same_day [OF k] by simp
qed

subsection \<open>What the reset leaves alone\<close>

lemma item_kept_refl: "item_kept x x"
  by (simp add: item_kept_def fields_except_def)

lemma item_kept_reset: "item_kept x (reset_item x)"
  by (simp add: item_kept_def fields_except_def reset_item_def delete_update_same
      lookup_update_other)

lemma items_kept_refl: "(\<And>x. P x x) \<Longrightarrow> items_kept P c c"
  by (auto simp: items_kept_def list_all2_same split: jsval.splits list.splits)

lemma items_kept_map: "items_kept item_kept (JArr (x # xs)) (JArr (map reset_item (x # xs)))"
  by (simp add: items_kept_def item_kept_reset list_all2_map2 list_all2_same)

lemma subject_kept_refl: "subject_kept s s"
  by (simp add: subject_kept_def fields_except_def items_kept_refl item_kept_refl)

lemma getProp_units: "getProp s ''units'' = Inr u \<Longrightarrow> u = lookup (own_props s) ''units''"
  by (cases s) auto

lemma subject_kept_reset:
  assumes "reset_subject s = Inr s'"
  shows "subject_kept s s'"
proof -
  from assms obtain u us where u: "getProp s ''units'' = Inr u"
    and m: "js_map (\<lambda>u. Inr (reset_item u)) (if truthy u then u else JArr []) = Inr us"
    and s': "s' = JObj (AList.update ''units'' us (own_props s))"
    by (auto simp: reset_subject_def split: sum.splits)
  from m obtain xs where xs: "(if truthy u then u else JArr []) = JArr xs"
      "us = JArr (map reset_item xs)"
    by (auto simp: js_map_pure)
  have lu: "lookup (own_props s) ''units'' = u"
    using getProp_units [OF u] by simp
  have "items_kept item_kept u us"
  proof (cases "truthy u")
    case True
    with xs have "u = JArr xs" by simp
    then show ?thesis using xs(2)
      by (cases xs) (simp_all add: items_kept_def item_kept_reset list_all2_map2 list_all2_same)
  next
    case False
    then show ?thesis by (cases u) (simp_all add: items_kept_def)
  qed
  then show ?thesis
    by (simp add: subject_kept_def fields_except_def s' delete_update_same lookup_update_other
        lookup_update_same lu)
qed

lemma map_result_subjects:
  "map_result reset_subject xs = Inr ys \<Longrightarrow> list_all2 subject_kept xs ys"
  by (drule map_result_all2) (auto elim!: list_all2_mono dest: subject_kept_reset)

lemma tasks_kept_js_map:
  assumes "js_map (\<lambda>t. Inr (reset_item t)) (or_default c dflt) = Inr b"
  shows "items_kept item_kept c b"
proof (cases c)
  case (JArr xs)
  show ?thesis
  proof (cases xs)
    case Nil
    then show ?thesis using JArr by (simp add: items_kept_def)
  next
    case (Cons y ys)
    with JArr assms have "js_map (\<lambda>t. Inr (reset_item t)) (JArr (y # ys)) = Inr b"
      by (simp only: or_default_Cons)
    then have "b = JArr (map reset_item (y # ys))"
      unfolding js_map_pure by blast
    then show ?thesis using JArr Cons items_kept_map by simp
  qed
qed (simp_all add: items_kept_def)

lemma subjects_kept_js_map:
  assumes "js_map reset_subject (or_default c dflt) = Inr m"
  shows "items_kept subject_kept c m"
proof (cases c)
  case (JArr xs)
  show ?thesis
  proof (cases xs)
    case Nil
    then show ?thesis using JArr by (simp add: items_kept_def)
  next
    case (Cons y ys)
    with JArr assms obtain zs where "map_result reset_subject (y # ys) = Inr zs" "m = JArr zs"
      by (auto simp: or_default_Cons split: sum.splits)
    then show ?thesis using JArr Cons map_result_subjects [of "y # ys" zs]
      by (simp add: items_kept_def)
  qed
qed (simp_all add: items_kept_def)

text \<open>
  Claim C3. Whatever the day-key, the reset changes nothing of a checklist item but its
  \<^verbatim>\<open>completed\<close> property: every item of the body tasks and of the skin tasks keeps
  its other properties, \<^verbatim>\<open>id\<close> and \<^verbatim>\<open>label\<close> among them; every subject keeps its
  properties other than \<^verbatim>\<open>units\<close>, so its \<^verbatim>\<open>id\<close>, \<^verbatim>\<open>label\<close> and
  \<^verbatim>\<open>links\<close>, and every unit of it keeps its properties other than
  \<^verbatim>\<open>completed\<close>. The collections keep their length and their order.
\<close>

theorem reset_preserves_identity:
  assumes "applyISTDailyReset k d = Inr d'"
  shows "items_kept item_kept (bodyTasks d) (bodyTasks d') \<and>
         items_kept item_kept (skinTasks d) (skinTasks d') \<and>
         items_kept subject_kept (mindSubjects d) (mindSubjects d')"
  using assms
proof (cases rule: reset_cases)
  case same
  then show ?thesis by (simp add: items_kept_refl item_kept_refl subject_kept_refl)
next
  case (reset b s m)
  then show ?thesis by (simp add: tasks_kept_js_map subjects_kept_js_map)
qed

theorem reset_preserves_identity_witness:
  "applyISTDailyReset ''2024-01-02'' stale_doc = Inr fresh_doc \<and>
   items_kept item_kept (bodyTasks stale_doc) (bodyTasks fresh_doc) \<and>
   items_kept item_kept (skinTasks stale_doc) (skinTasks fresh_doc) \<and>
   items_kept subject_kept (mindSubjects stale_doc) (mindSubjects fresh_doc)"
  using reset_preserves_identity [OF stale_reset] stale_reset by simp

text \<open>
  Claim C8. The reset never changes the counter \<^verbatim>\<open>skinSessions\<close>, whether the
  day-key differs or not.
\<close>

theorem reset_keeps_skinSessions:
  "applyISTDailyReset k d = Inr d' \<Longrightarrow> skinSessions d' = skinSessions d"
  by (erule reset_cases) simp_all

theorem reset_keeps_skinSessions_witness:
  "applyISTDailyReset ''2024-01-02'' stale_doc = Inr fresh_doc \<and>
   skinSessions fresh_doc = skinSessions stale_doc \<and> skinSessions stale_doc = JNum 3"
  using reset_keeps_skinSessions [OF stale_reset] stale_reset by (simp add: stale_doc_def)

subsection \<open>Seeding of empty collections\<close>

lemma reset_items_defaultBodyTasks: "map reset_item defaultBodyTasks = defaultBodyTasks"
  by (simp add: defaultBodyTasks_def task_def reset_item_def)

lemma reset_items_defaultSkinTasks: "map reset_item defaultSkinTasks = defaultSkinTasks"
  by (simp add: defaultSkinTasks_def task_def reset_item_def)

lemma reset_subjects_defaultMindSubjects:
  "map_result reset_subject defaultMindSubjects = Inr defaultMindSubjects"
  by (simp add: defaultMindSubjects_def unit_item_def reset_item_def reset_subject_def lookup_def)

lemma templates_incomplete:
  "all_incomplete defaultBodyTasks" "all_incomplete defaultSkinTasks"
  "all_units_incomplete defaultMindSubjects"
  by (simp_all add: all_incomplete_def all_units_incomplete_def defaultBodyTasks_def
      defaultSkinTasks_def defaultMindSubjects_def task_def unit_item_def lookup_def)

lemma templates_nonempty:
  "defaultBodyTasks \<noteq> []" "defaultSkinTasks \<noteq> []" "defaultMindSubjects \<noteq> []"
  by (simp_all add: defaultBodyTasks_def defaultSkinTasks_def defaultMindSubjects_def)

lemma seed_tasks:
  assumes "js_map (\<lambda>t. Inr (reset_item t)) (or_default (JArr []) dflt) = Inr b"
    and "map reset_item dflt = dflt"
  shows "b = JArr dflt"
proof -
  from assms(1) have "js_map (\<lambda>t. Inr (reset_item t)) (JArr dflt) = Inr b"
    by (simp only: or_default_Nil)
  then show ?thesis unfolding js_map_pure using assms(2) by auto
qed

lemma seed_subjects:
  assumes "js_map reset_subject (or_default (JArr []) defaultMindSubjects) = Inr m"
  shows "m = JArr defaultMindSubjects"
  using assms by (simp add: or_default_Nil reset_subjects_defaultMindSubjects)

lemma new_reset:
  "applyISTDailyReset ''2024-01-02'' (new_AppState uid) = Inr (seeded_doc uid ''2024-01-02'')"
  by (simp add: applyISTDailyReset_def new_AppState_def seeded_doc_def or_default_Nil
      map_result_pure reset_items_defaultBodyTasks reset_items_defaultSkinTasks
      reset_subjects_defaultMindSubjects)

lemma new_server_reset:
  "applyISTDailyReset ''2024-01-02'' (new_AppState_server uid) =
     Inr ((new_AppState_server uid)
           \<lparr>bodyTasks := JArr defaultBodyTasks, skinTasks := JArr defaultSkinTasks,
            mindSubjects := JArr defaultMindSubjects, istDayKey := ''2024-01-02''\<rparr>)"
  by (simp add: applyISTDailyReset_def new_AppState_server_def or_default_Nil
      map_result_pure reset_items_defaultBodyTasks reset_items_defaultSkinTasks
      reset_subjects_defaultMindSubjects)

text \<open>
  Claim C4. On a new day, an empty \<^verbatim>\<open>bodyTasks\<close> becomes the default body-task
  template, whose items all have \<^verbatim>\<open>completed: false\<close>; likewise an empty
  \<^verbatim>\<open>skinTasks\<close> and an empty \<^verbatim>\<open>mindSubjects\<close> with their templates.
\<close>

theorem reset_seeds_empty:
  assumes "istDayKey d \<noteq> k" and "applyISTDailyReset k d = Inr d'"
  shows "(bodyTasks d = JArr [] \<longrightarrow>
            bodyTasks d' = JArr defaultBodyTasks \<and> all_incomplete defaultBodyTasks) \<and>
         (skinTasks d = JArr [] \<longrightarrow>
            skinTasks d' = JArr defaultSkinTasks \<and> all_incomplete defaultSkinTasks) \<and>
         (mindSubjects d = JArr [] \<longrightarrow>
            mindSubjects d' = JArr defaultMindSubjects \<and>
            all_units_incomplete defaultMindSubjects)"
  using assms(2)
proof (cases rule: reset_cases)
  case same
  with assms(1) show ?thesis by simp
next
  case (reset b s m)
  then show ?thesis
    by (auto simp: templates_incomplete
        dest: seed_tasks [OF _ reset_items_defaultBodyTasks]
              seed_tasks [OF _ reset_items_defaultSkinTasks] seed_subjects)
qed

theorem reset_seeds_empty_witness:
  "istDayKey (new_AppState ''alice'') \<noteq> ''2024-01-02'' \<and>
   applyISTDailyReset ''2024-01-02'' (new_AppState ''alice'')
     = Inr (seeded_doc ''alice'' ''2024-01-02'') \<and>
   bodyTasks (new_AppState ''alice'') = JArr [] \<and>
   skinTasks (new_AppState ''alice'') = JArr [] \<and>
   mindSubjects (new_AppState ''alice'') = JArr [] \<and>
   bodyTasks (seeded_doc ''alice'' ''2024-01-02'') = JArr defaultBodyTasks \<and>
   skinTasks (seeded_doc ''alice'' ''2024-01-02'') = JArr defaultSkinTasks \<and>
   mindSubjects (seeded_doc ''alice'' ''2024-01-02'') = JArr defaultMindSubjects"
proof -
  have k: "istDayKey (new_AppState ''alice'') \<noteq> ''2024-01-02''"
    by (simp add: new_AppState_def)
  show ?thesis
    using k new_reset reset_seeds_empty [OF k new_reset] by (simp add: new_AppState_def)
qed

text \<open>
  Claim C5, as stated, says that an empty collection is seeded also when the stored
  day-key already equals today's. The reset does nothing then: a document whose body tasks
  were emptied today comes back with its body tasks empty.
\<close>

theorem seeding_same_day_counterexample:
  "istDayKey emptied_doc = ''2024-01-02'' \<and> bodyTasks emptied_doc = JArr [] \<and>
   applyISTDailyReset ''2024-01-02'' emptied_doc = Inr emptied_doc \<and>
   bodyTasks emptied_doc \<noteq> JArr defaultBodyTasks"
  by (simp add: emptied_doc_def fresh_doc_def applyISTDailyReset_def defaultBodyTasks_def)

text \<open>
  Claim C5, amended. When the stored day-key differs from today's, an empty collection comes
  back as its default template, which is not empty. When the stored day-key equals today's,
  the three collections come back as they were stored.
\<close>

theorem reset_seeds_empty_on_new_day:
  assumes "applyISTDailyReset k d = Inr d'"
  shows "(istDayKey d \<noteq> k \<longrightarrow>
            (bodyTasks d = JArr [] \<longrightarrow> bodyTasks d' = JArr defaultBodyTasks) \<and>
            (skinTasks d = JArr [] \<longrightarrow> skinTasks d' = JArr defaultSkinTasks) \<and>
            (mindSubjects d = JArr [] \<longrightarrow> mindSubjects d' = JArr defaultMindSubjects)) \<and>
         (istDayKey d = k \<longrightarrow>
            bodyTasks d' = bodyTasks d \<and> skinTasks d' = skinTasks d \<and>
            mindSubjects d' = mindSubjects d) \<and>
         defaultBodyTasks \<noteq> [] \<and> defaultSkinTasks \<noteq> [] \<and> defaultMindSubjects \<noteq> []"
  using assms
proof (cases rule: reset_cases)
  case same
  then show ?thesis by (simp add: templates_nonempty)
next
  case (reset b s m)
  then show ?thesis
    by (auto simp: templates_nonempty
        dest: seed_tasks [OF _ reset_items_defaultBodyTasks]
              seed_tasks [OF _ reset_items_defaultSkinTasks] seed_subjects)
qed

theorem reset_seeds_empty_on_new_day_witness:
  "applyISTDailyReset ''2024-01-02'' (new_AppState ''bob'')
     = Inr (seeded_doc ''bob'' ''2024-01-02'') \<and>
   istDayKey (new_AppState ''bob'') \<noteq> ''2024-01-02'' \<and>
   bodyTasks (new_AppState ''bob'') = JArr [] \<and>
   bodyTasks (seeded_doc ''bob'' ''2024-01-02'') = JArr defaultBodyTasks \<and>
   defaultBodyTasks \<noteq> [] \<and>
   applyISTDailyReset ''2024-01-02'' emptied_doc = Inr emptied_doc \<and>
   istDayKey emptied_doc = ''2024-01-02'' \<and>
   bodyTasks emptied_doc = JArr []"
proof -
  have e: "applyISTDailyReset ''2024-01-02'' emptied_doc = Inr emptied_doc"
    by (rule reset_same_day) (simp add: emptied_doc_def fresh_doc_def)
  have "istDayKey emptied_doc = ''2024-01-02''" "bodyTasks emptied_doc = JArr []"
    by (simp_all add: emptied_doc_def fresh_doc_def)
  then show ?thesis
    using new_reset [of "''bob''"] reset_seeds_empty_on_new_day [OF new_reset, of "''bob''"]
      e reset_seeds_empty_on_new_day [OF e]
    by (simp add: new_AppState_def)
qed

subsection \<open>The day-key watermark\<close>

text \<open>
  Claim C6, as stated, says that the stored day-key never decreases. The reset compares the
  stored key with today's for inequality only, so a day-key that is earlier than the stored
  one replaces it.
\<close>

theorem reset_dayKey_counterexample:
  "applyISTDailyReset ''2024-01-01'' fresh_doc = Inr (fresh_doc\<lparr>istDayKey := ''2024-01-01''\<rparr>) \<and>
   istDayKey (fresh_doc\<lparr>istDayKey := ''2024-01-01''\<rparr>) < istDayKey fresh_doc"
  by (simp add: applyISTDailyReset_def stale_doc_def fresh_doc_def or_default_def
      opt_length_def nullish_def reset_item_def reset_subject_def lookup_def)

text \<open>
  Claim C6, amended. After the reset the stored day-key is the day-key the reset was run
  with; so it has not decreased whenever that day-key is not earlier than the stored one.
\<close>

theorem reset_dayKey:
  assumes "applyISTDailyReset k d = Inr d'"
  shows "istDayKey d' = k \<and> (istDayKey d \<le> k \<longrightarrow> istDayKey d \<le> istDayKey d')"
  using assms by (cases rule: reset_cases) simp_all

theorem reset_dayKey_witness:
  "applyISTDailyReset ''2024-01-02'' stale_doc = Inr fresh_doc \<and>
   istDayKey fresh_doc = ''2024-01-02'' \<and> istDayKey stale_doc \<le> ''2024-01-02'' \<and>
   istDayKey stale_doc \<le> istDayKey fresh_doc"
  using reset_dayKey [OF stale_reset] stale_reset by (simp add: stale_doc_def)

subsection \<open>When the reset throws\<close>

text \<open>
  The reset throws a \<^verbatim>\<open>TypeError\<close> on a subject that is \<^verbatim>\<open>null\<close> and on a
  subject whose \<^verbatim>\<open>units\<close> are truthy without being an array; it returns on every
  document whose three collections are arrays and whose subjects are none of these.
\<close>

lemma reset_throws_on_null_subject:
  "applyISTDailyReset ''2024-01-02'' (stale_doc\<lparr>mindSubjects := JArr [JNull]\<rparr>) = Inl TypeError"
  by (simp add: applyISTDailyReset_def stale_doc_def or_default_def opt_length_def nullish_def
      map_result_pure reset_subject_def)

lemma reset_throws_on_bad_units:
  "applyISTDailyReset ''2024-01-02''
     (stale_doc\<lparr>mindSubjects := JArr [JObj [(''id'', JStr ''dsa''), (''units'', JNum 5)]]\<rparr>)
   = Inl TypeError"
  by (simp add: applyISTDailyReset_def stale_doc_def or_default_def opt_length_def nullish_def
      map_result_pure reset_subject_def lookup_def)

lemma getProp_not_nullish: "\<not> nullish s \<Longrightarrow> \<exists>u. getProp s k = Inr u"
  by (cases s) (simp_all add: nullish_def)

lemma reset_subject_ok:
  assumes "subject_ok s"
  shows "\<exists>s'. reset_subject s = Inr s'"
proof -
  from assms have nn: "\<not> nullish s" by (simp add: subject_ok_def)
  then obtain u where u: "getProp s ''units'' = Inr u"
    using getProp_not_nullish by blast
  then have lu: "u = lookup (own_props s) ''units''" by (rule getProp_units)
  have "\<exists>xs. (if truthy u then u else JArr []) = JArr xs"
  proof (cases "truthy u")
    case True
    with assms lu have "is_array u" by (simp add: subject_ok_def)
    then show ?thesis using True by (cases u) simp_all
  next
    case False
    then show ?thesis by simp
  qed
  then obtain xs where "(if truthy u then u else JArr []) = JArr xs" ..
  then show ?thesis
    using u by (simp add: reset_subject_def map_result_pure)
qed

lemma map_result_subjects_ok:
  "list_all subject_ok ms \<Longrightarrow> \<exists>ys. map_result reset_subject ms = Inr ys"
proof (induction ms)
  case Nil
  then show ?case by simp
next
  case (Cons s ms)
  then obtain ys where "map_result reset_subject ms = Inr ys" by auto
  moreover from Cons.prems obtain s' where "reset_subject s = Inr s'"
    using reset_subject_ok by auto
  ultimately show ?case by simp
qed

lemma reset_total:
  assumes "bodyTasks d = JArr bs" and "skinTasks d = JArr ss" and "mindSubjects d = JArr ms"
    and "list_all subject_ok ms"
  shows "\<exists>d'. applyISTDailyReset k d = Inr d'"
proof -
  have b: "\<exists>xs. or_default (JArr bs) defaultBodyTasks = JArr xs"
    by (cases bs) (simp_all add: or_default_Nil or_default_Cons)
  have s: "\<exists>xs. or_default (JArr ss) defaultSkinTasks = JArr xs"
    by (cases ss) (simp_all add: or_default_Nil or_default_Cons)
  have m: "\<exists>ys. js_map reset_subject (or_default (JArr ms) defaultMindSubjects) = Inr ys"
  proof (cases ms)
    case Nil
    then show ?thesis by (simp add: or_default_Nil reset_subjects_defaultMindSubjects)
  next
    case (Cons x xs)
    with map_result_subjects_ok [OF assms(4)] show ?thesis
      by (auto simp: or_default_Cons)
  qed
  from b s m show ?thesis
    by (auto simp: applyISTDailyReset_def assms(1-3) map_result_pure)
qed

section \<open>Properties of the update request\<close>

subsection \<open>Assignment to a path of the schema\<close>

lemma coalesce_provided: "\<not> nullish a \<Longrightarrow> coalesce a b = a"
  by (simp add: coalesce_def)

lemma coalesce_nullish: "nullish a \<Longrightarrow> coalesce a b = b"
  by (simp add: coalesce_def)

lemma assign_path_eq: "assign_path cast p cur = (if nullish p then Inr cur else cast p)"
  by (simp add: assign_path_def coalesce_def)

lemma and_then_Inr: "and_then m f = Inr y \<longleftrightarrow> (\<exists>x. m = Inr x \<and> f x = Inr y)"
  by (cases m) (simp_all add: and_then_def)

lemma assign_nullish: "nullish p \<Longrightarrow> assign_path cast p cur = Inr cur"
  by (simp add: assign_path_eq)

lemma cast_array_not_null: "cast_array v \<noteq> Inr JNull"
  by (cases v) (simp_all add: cast_array_def)

lemma cast_string_null: "cast_string v = Inr JNull \<Longrightarrow> v = JNull"
  by (cases v) (auto simp: cast_string_def split: jsval.splits if_splits)

lemma cast_mixed_null: "cast_mixed v = Inr JNull \<Longrightarrow> v = JNull"
  by (simp add: cast_mixed_def)

lemma cast_number_empty: "cast_number toNumber (JStr []) = Inr JNull"
  by (simp add: cast_number_def)

lemma assign_null:
  assumes "assign_path cast p cur = Inr JNull" and "\<And>v. cast v = Inr JNull \<Longrightarrow> v = JNull"
  shows "cur = JNull"
  using assms by (auto simp: assign_path_eq nullish_def split: if_splits)

lemma overlay_assigned:
  assumes "overlay tn p d = Inr d'"
  shows "assign_path cast_array (read_prop p ''plannerTasks'') (plannerTasks d) = Inr (plannerTasks d')"
    "assign_path cast_array (read_prop p ''bodyTasks'') (bodyTasks d) = Inr (bodyTasks d')"
    "assign_path cast_array (read_prop p ''skinTasks'') (skinTasks d) = Inr (skinTasks d')"
    "assign_path (cast_number tn) (read_prop p ''skinSessions'') (skinSessions d) = Inr (skinSessions d')"
    "assign_path cast_array (read_prop p ''mindSubjects'') (mindSubjects d) = Inr (mindSubjects d')"
    "assign_path cast_mixed (read_prop p ''reminderSettings'') (reminderSettings d) = Inr (reminderSettings d')"
    "assign_path cast_mixed (read_prop p ''mindReminderTimes'') (mindReminderTimes d) = Inr (mindReminderTimes d')"
    "assign_path cast_mixed (read_prop p ''mindReminderEnabled'') (mindReminderEnabled d) = Inr (mindReminderEnabled d')"
    "assign_path cast_mixed (read_prop p ''mindLastReminderDay'') (mindLastReminderDay d) = Inr (mindLastReminderDay d')"
    "assign_path cast_string (read_prop p ''weightInput'') (weightInput d) = Inr (weightInput d')"
    "assign_path cast_mixed (read_prop p ''muscleProgress'') (muscleProgress d) = Inr (muscleProgress d')"
    "userId d' = userId d" "istDayKey d' = istDayKey d"
  using assms unfolding overlay_def and_then_Inr by auto

lemma overlay_server_assigned:
  assumes "overlay_server tn p d = Inr d'"
  shows "assign_path cast_array (read_prop p ''plannerTasks'') (plannerTasks d) = Inr (plannerTasks d')"
    "assign_path cast_array (read_prop p ''bodyTasks'') (bodyTasks d) = Inr (bodyTasks d')"
    "assign_path cast_array (read_prop p ''skinTasks'') (skinTasks d) = Inr (skinTasks d')"
    "assign_path (cast_number tn) (read_prop p ''skinSessions'') (skinSessions d) = Inr (skinSessions d')"
    "assign_path cast_array (read_prop p ''mindSubjects'') (mindSubjects d) = Inr (mindSubjects d')"
    "assign_path cast_mixed (read_prop p ''reminderSettings'') (reminderSettings d) = Inr (reminderSettings d')"
    "assign_path cast_mixed (read_prop p ''mindReminderTimes'') (mindReminderTimes d) = Inr (mindReminderTimes d')"
    "assign_path cast_mixed (read_prop p ''mindReminderEnabled'') (mindReminderEnabled d) = Inr (mindReminderEnabled d')"
    "mindLastReminderDay d' = mindLastReminderDay d" "weightInput d' = weightInput d"
    "muscleProgress d' = muscleProgress d"
    "userId d' = userId d" "istDayKey d' = istDayKey d"
  using assms unfolding overlay_server_def and_then_Inr by auto


lemma cast_array_null: "cast_array v = Inr JNull \<Longrightarrow> v = JNull"
  using cast_array_not_null [of v] by simp

lemma overlay_fields_iff:
  "(n, get) \<in> set overlay_fields \<longleftrightarrow>
     n = ''plannerTasks'' \<and> get = plannerTasks \<or>
     n = ''bodyTasks'' \<and> get = bodyTasks \<or>
     n = ''skinTasks'' \<and> get = skinTasks \<or>
     n = ''skinSessions'' \<and> get = skinSessions \<or>
     n = ''mindSubjects'' \<and> get = mindSubjects \<or>
     n = ''reminderSettings'' \<and> get = reminderSettings \<or>
     n = ''mindReminderTimes'' \<and> get = mindReminderTimes \<or>
     n = ''mindReminderEnabled'' \<and> get = mindReminderEnabled \<or>
     n = ''mindLastReminderDay'' \<and> get = mindLastReminderDay \<or>
     n = ''weightInput'' \<and> get = weightInput \<or>
     n = ''muscleProgress'' \<and> get = muscleProgress"
  by (simp add: overlay_fields_def overlay_fields_server_def)

lemma overlay_fields_cases:
  assumes "(n, get) \<in> set overlay_fields"
  obtains
    (plannerTasks) "n = ''plannerTasks''" "get = plannerTasks"
  | (bodyTasks) "n = ''bodyTasks''" "get = bodyTasks"
  | (skinTasks) "n = ''skinTasks''" "get = skinTasks"
  | (skinSessions) "n = ''skinSessions''" "get = skinSessions"
  | (mindSubjects) "n = ''mindSubjects''" "get = mindSubjects"
  | (reminderSettings) "n = ''reminderSettings''" "get = reminderSettings"
  | (mindReminderTimes) "n = ''mindReminderTimes''" "get = mindReminderTimes"
  | (mindReminderEnabled) "n = ''mindReminderEnabled''" "get = mindReminderEnabled"
  | (mindLastReminderDay) "n = ''mindLastReminderDay''" "get = mindLastReminderDay"
  | (weightInput) "n = ''weightInput''" "get = weightInput"
  | (muscleProgress) "n = ''muscleProgress''" "get = muscleProgress"
  using assms unfolding overlay_fields_iff by (elim disjE conjE) blast+

lemma overlay_field_assigned:
  assumes "(n, get) \<in> set overlay_fields" and "overlay tn p d = Inr d'"
  shows "get d' = get d \<or>
         (\<exists>cast. assign_path cast (read_prop p n) (get d) = Inr (get d') \<and>
            (n \<noteq> ''skinSessions'' \<longrightarrow> (\<forall>v. cast v = Inr JNull \<longrightarrow> v = JNull)))"
  using assms(1)
proof (cases rule: overlay_fields_cases)
  case plannerTasks
  have "assign_path cast_array (read_prop p n) (get d) = Inr (get d')"
    using overlay_assigned(1) [OF assms(2)] by (simp only: plannerTasks)
  moreover have "\<forall>v. cast_array v = Inr JNull \<longrightarrow> v = JNull"
    by (simp add: cast_array_null)
  ultimately show ?thesis by blast
next
  case bodyTasks
  have "assign_path cast_array (read_prop p n) (get d) = Inr (get d')"
    using overlay_assigned(2) [OF assms(2)] by (simp only: bodyTasks)
  moreover have "\<forall>v. cast_array v = Inr JNull \<longrightarrow> v = JNull"
    by (simp add: cast_array_null)
  ultimately show ?thesis by blast
next
  case skinTasks
  have "assign_path cast_array (read_prop p n) (get d) = Inr (get d')"
    using overlay_assigned(3) [OF assms(2)] by (simp only: skinTasks)
  moreover have "\<forall>v. cast_array v = Inr JNull \<longrightarrow> v = JNull"
    by (simp add: cast_array_null)
  ultimately show ?thesis by blast
next
  case skinSessions
  have "assign_path (cast_number tn) (read_prop p n) (get d) = Inr (get d')"
    using overlay_assigned(4) [OF assms(2)] by (simp only: skinSessions)
  then show ?thesis using skinSessions(1) by blast
next
  case mindSubjects
  have "assign_path cast_array (read_prop p n) (get d) = Inr (get d')"
    using overlay_assigned(5) [OF assms(2)] by (simp only: mindSubjects)
  moreover have "\<forall>v. cast_array v = Inr JNull \<longrightarrow> v = JNull"
    by (simp add: cast_array_null)
  ultimately show ?thesis by blast
next
  case reminderSettings
  have "assign_path cast_mixed (read_prop p n) (get d) = Inr (get d')"
    using overlay_assigned(6) [OF assms(2)] by (simp only: reminderSettings)
  moreover have "\<forall>v. cast_mixed v = Inr JNull \<longrightarrow> v = JNull"
    by (simp add: cast_mixed_null)
  ultimately show ?thesis by blast
next
  case mindReminderTimes
  have "assign_path cast_mixed (read_prop p n) (get d) = Inr (get d')"
    using overlay_assigned(7) [OF assms(2)] by (simp only: mindReminderTimes)
  moreover have "\<forall>v. cast_mixed v = Inr JNull \<longrightarrow> v = JNull"
    by (simp add: cast_mixed_null)
  ultimately show ?thesis by blast
next
  case mindReminderEnabled
  have "assign_path cast_mixed (read_prop p n) (get d) = Inr (get d')"
    using overlay_assigned(8) [OF assms(2)] by (simp only: mindReminderEnabled)
  moreover have "\<forall>v. cast_mixed v = Inr JNull \<longrightarrow> v = JNull"
    by (simp add: cast_mixed_null)
  ultimately show ?thesis by blast
next
  case mindLastReminderDay
  have "assign_path cast_mixed (read_prop p n) (get d) = Inr (get d')"
    using overlay_assigned(9) [OF assms(2)] by (simp only: mindLastReminderDay)
  moreover have "\<forall>v. cast_mixed v = Inr JNull \<longrightarrow> v = JNull"
    by (simp add: cast_mixed_null)
  ultimately show ?thesis by blast
next
  case weightInput
  have "assign_path cast_string (read_prop p n) (get d) = Inr (get d')"
    using overlay_assigned(10) [OF assms(2)] by (simp only: weightInput)
  moreover have "\<forall>v. cast_string v = Inr JNull \<longrightarrow> v = JNull"
    by (simp add: cast_string_null)
  ultimately show ?thesis by blast
next
  case muscleProgress
  have "assign_path cast_mixed (read_prop p n) (get d) = Inr (get d')"
    using overlay_assigned(11) [OF assms(2)] by (simp only: muscleProgress)
  moreover have "\<forall>v. cast_mixed v = Inr JNull \<longrightarrow> v = JNull"
    by (simp add: cast_mixed_null)
  ultimately show ?thesis by blast
qed

lemma overlay_server_field_assigned:
  assumes "(n, get) \<in> set overlay_fields" and "overlay_server tn p d = Inr d'"
  shows "get d' = get d \<or>
         (\<exists>cast. assign_path cast (read_prop p n) (get d) = Inr (get d') \<and>
            (n \<noteq> ''skinSessions'' \<longrightarrow> (\<forall>v. cast v = Inr JNull \<longrightarrow> v = JNull)))"
  using assms(1)
proof (cases rule: overlay_fields_cases)
  case plannerTasks
  have "assign_path cast_array (read_prop p n) (get d) = Inr (get d')"
    using overlay_server_assigned(1) [OF assms(2)] by (simp only: plannerTasks)
  moreover have "\<forall>v. cast_array v = Inr JNull \<longrightarrow> v = JNull"
    by (simp add: cast_array_null)
  ultimately show ?thesis by blast
next
  case bodyTasks
  have "assign_path cast_array (read_prop p n) (get d) = Inr (get d')"
    using overlay_server_assigned(2) [OF assms(2)] by (simp only: bodyTasks)
  moreover have "\<forall>v. cast_array v = Inr JNull \<longrightarrow> v = JNull"
    by (simp add: cast_array_null)
  ultimately show ?thesis by blast
next
  case skinTasks
  have "assign_path cast_array (read_prop p n) (get d) = Inr (get d')"
    using overlay_server_assigned(3) [OF assms(2)] by (simp only: skinTasks)
  moreover have "\<forall>v. cast_array v = Inr JNull \<longrightarrow> v = JNull"
    by (simp add: cast_array_null)
  ultimately show ?thesis by blast
next
  case skinSessions
  have "assign_path (cast_number tn) (read_prop p n) (get d) = Inr (get d')"
    using overlay_server_assigned(4) [OF assms(2)] by (simp only: skinSessions)
  then show ?thesis using skinSessions(1) by blast
next
  case mindSubjects
  have "assign_path cast_array (read_prop p n) (get d) = Inr (get d')"
    using overlay_server_assigned(5) [OF assms(2)] by (simp only: mindSubjects)
  moreover have "\<forall>v. cast_array v = Inr JNull \<longrightarrow> v = JNull"
    by (simp add: cast_array_null)
  ultimately show ?thesis by blast
next
  case reminderSettings
  have "assign_path cast_mixed (read_prop p n) (get d) = Inr (get d')"
    using overlay_server_assigned(6) [OF assms(2)] by (simp only: reminderSettings)
  moreover have "\<forall>v. cast_mixed v = Inr JNull \<longrightarrow> v = JNull"
    by (simp add: cast_mixed_null)
  ultimately show ?thesis by blast
next
  case mindReminderTimes
  have "assign_path cast_mixed (read_prop p n) (get d) = Inr (get d')"
    using overlay_server_assigned(7) [OF assms(2)] by (simp only: mindReminderTimes)
  moreover have "\<forall>v. cast_mixed v = Inr JNull \<longrightarrow> v = JNull"
    by (simp add: cast_mixed_null)
  ultimately show ?thesis by blast
next
  case mindReminderEnabled
  have "assign_path cast_mixed (read_prop p n) (get d) = Inr (get d')"
    using overlay_server_assigned(8) [OF assms(2)] by (simp only: mindReminderEnabled)
  moreover have "\<forall>v. cast_mixed v = Inr JNull \<longrightarrow> v = JNull"
    by (simp add: cast_mixed_null)
  ultimately show ?thesis by blast
next
  case mindLastReminderDay
  then show ?thesis using overlay_server_assigned(9) [OF assms(2)] by simp
next
  case weightInput
  then show ?thesis using overlay_server_assigned(10) [OF assms(2)] by simp
next
  case muscleProgress
  then show ?thesis using overlay_server_assigned(11) [OF assms(2)] by simp
qed

lemma assigned_kept:
  assumes "new = old \<or>
         (\<exists>cast. assign_path cast v old = Inr new \<and>
            (n \<noteq> ''skinSessions'' \<longrightarrow> (\<forall>v. cast v = Inr JNull \<longrightarrow> v = JNull)))"
    and "nullish v"
  shows "new = old"
  using assms by (auto simp: assign_nullish)

lemma assigned_null:
  assumes "new = old \<or>
         (\<exists>cast. assign_path cast v old = Inr new \<and>
            (n \<noteq> ''skinSessions'' \<longrightarrow> (\<forall>v. cast v = Inr JNull \<longrightarrow> v = JNull)))"
    and "n \<noteq> ''skinSessions''" and "new = JNull"
  shows "old = JNull"
  using assms by (auto dest: assign_null)

subsection \<open>The two handlers\<close>

text \<open>
  The serverless handler: it resets the stored (or new) document, overlays the payload and
  saves; an exception of the reset and a failed cast are answered with status 500, and
  nothing is saved then.
\<close>

lemma handler_put_saves:
  assumes "(case st uid of None \<Rightarrow> new_AppState uid | Some d \<Rightarrow> d) = d0"
    and "applyISTDailyReset k d0 = Inr d'"
    and "overlay tn (or_empty body) d' = Inr d''"
  shows "handler_put tn k st uid body =
           (Status200 (JObj [(''ok'', JBool True)]), st(uid \<mapsto> d''))"
  using assms by (simp add: handler_put_def Let_def)

lemma handler_put_throws:
  assumes "(case st uid of None \<Rightarrow> new_AppState uid | Some d \<Rightarrow> d) = d0"
    and "applyISTDailyReset k d0 = Inl e"
  shows "handler_put tn k st uid body = (Status500, st)"
  using assms by (simp add: handler_put_def Let_def)

lemma handler_put_rejects:
  assumes "(case st uid of None \<Rightarrow> new_AppState uid | Some d \<Rightarrow> d) = d0"
    and "applyISTDailyReset k d0 = Inr d'"
    and "overlay tn (or_empty body) d' = Inl e"
  shows "handler_put tn k st uid body = (Status500, st)"
  using assms by (simp add: handler_put_def Let_def)

lemma app_put_saves:
  assumes "(case st uid of None \<Rightarrow> new_AppState_server uid | Some d \<Rightarrow> d) = d0"
    and "applyISTDailyReset k d0 = Inr d'"
    and "overlay_server tn (or_empty body) d' = Inr d''"
  shows "app_put tn k st uid body =
           (Status200 (JObj [(''ok'', JBool True)]), st(uid \<mapsto> d''))"
  using assms by (simp add: app_put_def Let_def)

lemma read_absent: "read_prop (JObj [(k, v)]) k' = (if k' = k then v else JUndefined)"
  by (simp add: read_prop_def lookup_def)

lemma overlay_weight:
  "overlay tn (JObj [(''weightInput'', JStr ''72'')]) d = Inr (d\<lparr>weightInput := JStr ''72''\<rparr>)"
  by (simp add: overlay_def and_then_def assign_path_eq nullish_def read_absent cast_string_def)

lemma overlay_server_weight:
  "overlay_server tn (JObj [(''weightInput'', JStr ''72'')]) d = Inr d"
  by (simp add: overlay_server_def and_then_def assign_path_eq nullish_def read_absent)

subsection \<open>Payloads of the examples\<close>

lemma overlay_empty_string:
  "overlay tn empty_string_payload d = Inr (d\<lparr>skinSessions := JNull\<rparr>)"
  by (simp add: empty_string_payload_def overlay_def and_then_def assign_path_eq nullish_def
      read_absent cast_number_def)

lemma overlay_server_empty_string:
  "overlay_server tn empty_string_payload d = Inr (d\<lparr>skinSessions := JNull\<rparr>)"
  by (simp add: empty_string_payload_def overlay_server_def and_then_def assign_path_eq
      nullish_def read_absent cast_number_def)

lemma fresh_same_day: "applyISTDailyReset ''2024-01-02'' fresh_doc = Inr fresh_doc"
  by (rule reset_same_day) (simp add: fresh_doc_def)

lemma overlay_clearing:
  "overlay tn clearing_payload d = Inr (d\<lparr>weightInput := JStr ''72''\<rparr>)"
  by (simp add: clearing_payload_def overlay_def and_then_def assign_path_eq nullish_def
      read_prop_def lookup_def cast_string_def)

lemma overlay_server_clearing: "overlay_server tn clearing_payload d = Inr d"
  by (simp add: clearing_payload_def overlay_server_def and_then_def assign_path_eq nullish_def
      read_prop_def lookup_def)

subsection \<open>The claims on the update request\<close>

text \<open>
  Claim C7. The claim holds of the handler of \<^verbatim>\<open>api/state.js\<close>, which saves
  each of its eleven fields as the path's cast of the provided value (\<open>handler_put_saves\<close>,
  \<open>overlay_assigned\<close>). The PUT route of \<^verbatim>\<open>server.js\<close> does not do what the
  claim says for \<^verbatim>\<open>weightInput\<close>, \<^verbatim>\<open>muscleProgress\<close> and
  \<^verbatim>\<open>mindLastReminderDay\<close>: for the request body \<^verbatim>\<open>{"weightInput": "72"}\<close> and a
  user without a document, it saves a document without the weight, where the handler of
  \<^verbatim>\<open>api/state.js\<close> saves the weight.
\<close>

theorem app_put_drops_weightInput:
  "map_option weightInput
     (snd (app_put toNumber ''2024-01-02'' Map.empty ''demo''
             (JObj [(''weightInput'', JStr ''72'')]))
        ''demo'')
     = Some JUndefined \<and>
   map_option weightInput
     (snd (handler_put toNumber ''2024-01-02'' Map.empty ''demo''
             (JObj [(''weightInput'', JStr ''72'')]))
        ''demo'')
     = Some (JStr ''72'')"
proof -
  have e: "or_empty (JObj [(''weightInput'', JStr ''72'')]) = JObj [(''weightInput'', JStr ''72'')]"
    by (simp add: or_empty_def)
  show ?thesis
    by (simp add: app_put_def handler_put_def new_server_reset new_reset e overlay_weight
        overlay_server_weight)
      (simp add: new_AppState_server_def)
qed

text \<open>
  Claim C10, as stated, says that the update can never clear a field to null. The path
  \<^verbatim>\<open>skinSessions\<close> has the schema type \<^verbatim>\<open>Number\<close>, whose cast turns the empty
  string into null: the empty string is not nullish, so \<^verbatim>\<open>??\<close> passes it on, and
  either PUT then saves null over a stored count of 3.
\<close>

theorem empty_string_clears_skinSessions_counterexample:
  "skinSessions fresh_doc = JNum 3 \<and>
   read_prop empty_string_payload ''skinSessions'' = JStr [] \<and>
   overlay Map.empty empty_string_payload fresh_doc = Inr (fresh_doc\<lparr>skinSessions := JNull\<rparr>) \<and>
   overlay_server Map.empty empty_string_payload fresh_doc
     = Inr (fresh_doc\<lparr>skinSessions := JNull\<rparr>) \<and>
   map_option skinSessions
     (snd (handler_put Map.empty ''2024-01-02'' (Map.empty(''alice'' \<mapsto> fresh_doc)) ''alice''
             empty_string_payload) ''alice'') = Some JNull \<and>
   map_option skinSessions
     (snd (app_put Map.empty ''2024-01-02'' (Map.empty(''alice'' \<mapsto> fresh_doc)) ''alice''
             empty_string_payload) ''alice'') = Some JNull"
proof -
  have e: "or_empty empty_string_payload = empty_string_payload"
    by (simp add: or_empty_def empty_string_payload_def)
  have s: "skinSessions fresh_doc = JNum 3"
    by (simp add: fresh_doc_def stale_doc_def)
  have r: "read_prop empty_string_payload ''skinSessions'' = JStr []"
    by (simp add: empty_string_payload_def read_absent)
  show ?thesis
    by (simp add: s r overlay_empty_string overlay_server_empty_string handler_put_def app_put_def
        fresh_same_day e)
qed

text \<open>
  Claim C10, amended. In the overlay of either PUT, a payload field that is null or
  undefined (so also a field that the payload does not have) leaves the reset document's
  value in place whenever the update is saved. And for every field other than
  \<^verbatim>\<open>skinSessions\<close>, the field is null in a saved update only if it was null in the reset
  document, so that no payload clears such a field to null.
\<close>

theorem nullish_payload_field_kept:
  assumes "(n, get) \<in> set overlay_fields"
  shows "(\<forall>d'. nullish (read_prop p n) \<and> overlay toNumber p d = Inr d' \<longrightarrow> get d' = get d) \<and>
         (\<forall>d'. nullish (read_prop p n) \<and> overlay_server toNumber p d = Inr d' \<longrightarrow>
            get d' = get d) \<and>
         (\<forall>d'. n \<noteq> ''skinSessions'' \<and> overlay toNumber p d = Inr d' \<and> get d' = JNull \<longrightarrow>
            get d = JNull) \<and>
         (\<forall>d'. n \<noteq> ''skinSessions'' \<and> overlay_server toNumber p d = Inr d' \<and> get d' = JNull \<longrightarrow>
            get d = JNull)"
proof (intro conjI allI impI)
  fix d'
  assume a: "nullish (read_prop p n) \<and> overlay toNumber p d = Inr d'"
  then have o: "overlay toNumber p d = Inr d'" by simp
  from a show "get d' = get d"
    by (intro assigned_kept [OF overlay_field_assigned [OF assms o]]) simp
next
  fix d'
  assume a: "nullish (read_prop p n) \<and> overlay_server toNumber p d = Inr d'"
  then have o: "overlay_server toNumber p d = Inr d'" by simp
  from a show "get d' = get d"
    by (intro assigned_kept [OF overlay_server_field_assigned [OF assms o]]) simp
next
  fix d'
  assume a: "n \<noteq> ''skinSessions'' \<and> overlay toNumber p d = Inr d' \<and> get d' = JNull"
  then have o: "overlay toNumber p d = Inr d'" by simp
  from a show "get d = JNull"
    by (intro assigned_null [OF overlay_field_assigned [OF assms o]]) simp_all
next
  fix d'
  assume a: "n \<noteq> ''skinSessions'' \<and> overlay_server toNumber p d = Inr d' \<and> get d' = JNull"
  then have o: "overlay_server toNumber p d = Inr d'" by simp
  from a show "get d = JNull"
    by (intro assigned_null [OF overlay_server_field_assigned [OF assms o]]) simp_all
qed

theorem nullish_payload_field_kept_witness:
  "(''skinSessions'', skinSessions) \<in> set overlay_fields \<and>
   nullish (read_prop clearing_payload ''skinSessions'') \<and>
   overlay Map.empty clearing_payload fresh_doc = Inr (fresh_doc\<lparr>weightInput := JStr ''72''\<rparr>) \<and>
   overlay_server Map.empty clearing_payload fresh_doc = Inr fresh_doc \<and>
   skinSessions (fresh_doc\<lparr>weightInput := JStr ''72''\<rparr>) = JNum 3 \<and>
   skinSessions fresh_doc = JNum 3 \<and>
   (''weightInput'', weightInput) \<in> set overlay_fields \<and>
   overlay Map.empty empty_string_payload null_weight_doc
     = Inr (null_weight_doc\<lparr>skinSessions := JNull\<rparr>) \<and>
   overlay_server Map.empty empty_string_payload null_weight_doc
     = Inr (null_weight_doc\<lparr>skinSessions := JNull\<rparr>) \<and>
   weightInput (null_weight_doc\<lparr>skinSessions := JNull\<rparr>) = JNull \<and>
   weightInput null_weight_doc = JNull"
proof -
  have m: "(''skinSessions'', skinSessions) \<in> set overlay_fields"
    by (simp add: overlay_fields_iff)
  have w: "(''weightInput'', weightInput) \<in> set overlay_fields"
    by (simp add: overlay_fields_iff)
  have n: "nullish (read_prop clearing_payload ''skinSessions'')"
    by (simp add: clearing_payload_def read_prop_def lookup_def nullish_def)
  have s: "skinSessions fresh_doc = JNum 3"
    by (simp add: fresh_doc_def stale_doc_def)
  have k: "skinSessions (fresh_doc\<lparr>weightInput := JStr ''72''\<rparr>) = skinSessions fresh_doc"
    using nullish_payload_field_kept [OF m, of clearing_payload Map.empty fresh_doc] n
      overlay_clearing [of Map.empty fresh_doc]
    by blast
  have z: "weightInput (null_weight_doc\<lparr>skinSessions := JNull\<rparr>) = JNull"
    by (simp add: null_weight_doc_def)
  have "weightInput null_weight_doc = JNull"
    using nullish_payload_field_kept [OF w, of empty_string_payload Map.empty null_weight_doc] z
      overlay_empty_string [of Map.empty null_weight_doc]
    by (simp only: simp_thms) blast
  with m w n s k z show ?thesis
    by (simp only: overlay_clearing overlay_server_clearing overlay_empty_string
        overlay_server_empty_string simp_thms)
qed

section \<open>Properties of the day-key\<close>

subsection \<open>The calendar\<close>

lemma year_and_day_decomp:
  assumes "year_and_day z = (y, doy)"
  obtains c q t where
    "c = min 3 (z mod 146097 div 36524)"
    "q = (z mod 146097 - 36524 * c) div 1461"
    "t = min 3 ((z mod 146097 - 36524 * c - 1461 * q) div 365)"
    "0 \<le> c" "c \<le> 3" "0 \<le> q" "q \<le> 24" "0 \<le> t" "t \<le> 3"
    "0 \<le> doy" "doy \<le> 365"
    "y = 400 * (z div 146097) + 100 * c + 4 * q + t"
    "z mod 146097 = 36524 * c + 1461 * q + 365 * t + doy"
proof -
  define doe where "doe = z mod 146097"
  define c where "c = min 3 (doe div 36524)"
  define r1 where "r1 = doe - 36524 * c"
  define q where "q = r1 div 1461"
  define r2 where "r2 = r1 - 1461 * q"
  define t where "t = min 3 (r2 div 365)"
  have y: "y = 400 * (z div 146097) + 100 * c + 4 * q + t" and doy: "doy = r2 - 365 * t"
    using assms unfolding year_and_day_def Let_def doe_def c_def r1_def q_def r2_def t_def
    by simp_all
  have doe: "0 \<le> doe" "doe \<le> 146096"
    unfolding doe_def by simp_all
  have c: "0 \<le> c" "c \<le> 3"
    using doe unfolding c_def by (simp_all add: pos_imp_zdiv_nonneg_iff)
  have r1: "0 \<le> r1" "r1 \<le> 36524"
    using doe unfolding r1_def c_def by (simp_all add: min_def) arith+
  have q: "0 \<le> q" "q \<le> 24"
    using r1 unfolding q_def by simp_all
  have r2: "0 \<le> r2" "r2 \<le> 1460"
    using r1 unfolding r2_def q_def by arith+
  have t: "0 \<le> t" "t \<le> 3"
    using r2 unfolding t_def by (simp_all add: pos_imp_zdiv_nonneg_iff)
  have d: "0 \<le> doy" "doy \<le> 365"
    using r2 unfolding doy t_def by (simp_all add: min_def) arith+
  have s: "z mod 146097 = 36524 * c + 1461 * q + 365 * t + doy"
    unfolding doy r2_def r1_def doe_def by simp
  have e: "c = min 3 (z mod 146097 div 36524)"
    "q = (z mod 146097 - 36524 * c) div 1461"
    "t = min 3 ((z mod 146097 - 36524 * c - 1461 * q) div 365)"
    unfolding c_def q_def t_def r2_def r1_def doe_def by simp_all
  from e c q t d y s show ?thesis by (rule that)
qed

lemma year_and_day_mono:
  assumes "year_and_day z = (y, doy)" and "year_and_day z' = (y', doy')" and "z \<le> z'"
  shows "y < y' \<or> (y = y' \<and> doy \<le> doy')"
proof -
  from assms(1) obtain c q t where
    c: "c = min 3 (z mod 146097 div 36524)"
    and q: "q = (z mod 146097 - 36524 * c) div 1461"
    and t: "t = min 3 ((z mod 146097 - 36524 * c - 1461 * q) div 365)"
    and b: "0 \<le> c" "c \<le> 3" "0 \<le> q" "q \<le> 24" "0 \<le> t" "t \<le> 3"
    and y: "y = 400 * (z div 146097) + 100 * c + 4 * q + t"
    and s: "z mod 146097 = 36524 * c + 1461 * q + 365 * t + doy"
    by (rule year_and_day_decomp)
  from assms(2) obtain c' q' t' where
    c': "c' = min 3 (z' mod 146097 div 36524)"
    and q': "q' = (z' mod 146097 - 36524 * c') div 1461"
    and t': "t' = min 3 ((z' mod 146097 - 36524 * c' - 1461 * q') div 365)"
    and b': "0 \<le> c'" "c' \<le> 3" "0 \<le> q'" "q' \<le> 24" "0 \<le> t'" "t' \<le> 3"
    and y': "y' = 400 * (z' div 146097) + 100 * c' + 4 * q' + t'"
    and s': "z' mod 146097 = 36524 * c' + 1461 * q' + 365 * t' + doy'"
    by (rule year_and_day_decomp)
  have era: "z div 146097 \<le> z' div 146097"
    using assms(3) by (simp add: zdiv_mono1)
  show ?thesis
  proof (cases "z div 146097 = z' div 146097")
    case False
    with era have "z div 146097 + 1 \<le> z' div 146097" by simp
    then show ?thesis using y y' b b' by simp
  next
    case e: True
    have m1: "z mod 146097 = z - 146097 * (z div 146097)"
      by (rule minus_mult_div_eq_mod [symmetric])
    have m2: "z' mod 146097 = z' - 146097 * (z' div 146097)"
      by (rule minus_mult_div_eq_mod [symmetric])
    have dd: "z mod 146097 \<le> z' mod 146097"
      using assms(3) unfolding m1 m2 e by simp
    then have cc: "c \<le> c'" unfolding c c' by (simp add: zdiv_mono1 min.coboundedI2)
    show ?thesis
    proof (cases "c = c'")
      case False
      with cc have "c + 1 \<le> c'" by simp
      then show ?thesis using y y' e b b' by simp
    next
      case ce: True
      with dd have qq: "q \<le> q'" unfolding q q' by (simp add: zdiv_mono1)
      show ?thesis
      proof (cases "q = q'")
        case False
        with qq have "q + 1 \<le> q'" by simp
        then show ?thesis using y y' e ce b b' by simp
      next
        case qe: True
        with dd ce have tt: "t \<le> t'" unfolding t t'
          by (simp add: zdiv_mono1 min.coboundedI2)
        show ?thesis
        proof (cases "t = t'")
          case False
          with tt show ?thesis using y y' e ce qe by simp
        next
          case True
          with dd show ?thesis using y y' e ce qe s s' by simp
        qed
      qed
    qed
  qed
qed

lemma month_and_day_decomp:
  assumes "month_and_day doy = (m, d)" and "0 \<le> doy" and "doy \<le> 365"
  obtains mp where "mp = (5 * doy + 2) div 153" "0 \<le> mp" "mp \<le> 11"
    "m = (if mp < 10 then mp + 3 else mp - 9)" "d = doy - (153 * mp + 2) div 5 + 1"
    "1 \<le> d" "d \<le> 31"
proof -
  define mp where "mp = (5 * doy + 2) div 153"
  have m: "m = (if mp < 10 then mp + 3 else mp - 9)" and d: "d = doy - (153 * mp + 2) div 5 + 1"
    using assms(1) unfolding month_and_day_def Let_def mp_def by simp_all
  have mp: "0 \<le> mp" "mp \<le> 11"
    using assms(2,3) unfolding mp_def by arith+
  have dd: "0 \<le> doy - (153 * mp + 2) div 5" "doy - (153 * mp + 2) div 5 \<le> 30"
    using assms(2,3) unfolding mp_def by arith+
  from dd have "1 \<le> d" "d \<le> 31" unfolding d by simp_all
  with mp_def mp m d show ?thesis by (rule that)
qed

lemma month_and_day_bounds:
  assumes "month_and_day doy = (m, d)" and "0 \<le> doy" and "doy \<le> 365"
  shows "1 \<le> m \<and> m \<le> 12 \<and> 1 \<le> d \<and> d \<le> 31"
  using assms by (elim month_and_day_decomp) auto

lemma month_from_march:
  assumes "month_and_day doy = (m, d)" and "0 \<le> doy" and "doy \<le> 305"
  shows "3 \<le> m"
proof -
  from assms obtain mp where mp: "mp = (5 * doy + 2) div 153" "0 \<le> mp"
    and m: "m = (if mp < 10 then mp + 3 else mp - 9)"
    by (elim month_and_day_decomp) auto
  have "mp \<le> 9"
    using assms(2,3) unfolding mp(1) by arith
  then show ?thesis using m mp(2) by auto
qed

lemma civil_from_days_mono:
  assumes "civil_from_days n = (y, m, d)" and "civil_from_days n' = (y', m', d')" and "n \<le> n'"
  shows "\<not> date_less (y', m', d') (y, m, d)"
proof -
  obtain y0 doy where yd: "year_and_day (n + 719468) = (y0, doy)"
    by (cases "year_and_day (n + 719468)")
  obtain m0 d0 where md: "month_and_day doy = (m0, d0)"
    by (cases "month_and_day doy")
  obtain y0' doy' where yd': "year_and_day (n' + 719468) = (y0', doy')"
    by (cases "year_and_day (n' + 719468)")
  obtain m0' d0' where md': "month_and_day doy' = (m0', d0')"
    by (cases "month_and_day doy'")
  from assms(1) yd md have r: "y = (if m \<le> 2 then y0 + 1 else y0)" "m0 = m" "d0 = d"
    by (auto simp: civil_from_days_def)
  from assms(2) yd' md' have r': "y' = (if m' \<le> 2 then y0' + 1 else y0')" "m0' = m'" "d0' = d'"
    by (auto simp: civil_from_days_def)
  have b: "0 \<le> doy" "doy \<le> 365" "0 \<le> doy'" "doy' \<le> 365"
    using yd yd' by (auto elim: year_and_day_decomp)
  from md b(1,2) obtain mp where mp: "mp = (5 * doy + 2) div 153" "0 \<le> mp" "mp \<le> 11"
    "m0 = (if mp < 10 then mp + 3 else mp - 9)" "d0 = doy - (153 * mp + 2) div 5 + 1"
    by (rule month_and_day_decomp)
  from md' b(3,4) obtain mp' where mp': "mp' = (5 * doy' + 2) div 153" "0 \<le> mp'" "mp' \<le> 11"
    "m0' = (if mp' < 10 then mp' + 3 else mp' - 9)" "d0' = doy' - (153 * mp' + 2) div 5 + 1"
    by (rule month_and_day_decomp)
  from assms(3) have "y0 < y0' \<or> (y0 = y0' \<and> doy \<le> doy')"
    by (intro year_and_day_mono [OF yd yd']) simp
  then show ?thesis
  proof
    assume lt: "y0 < y0'"
    with r r' mp(2-4) mp'(2-4) show ?thesis by (auto split: if_splits)
  next
    assume eq: "y0 = y0' \<and> doy \<le> doy'"
    then have "mp \<le> mp'" unfolding mp(1) mp'(1) by (simp add: zdiv_mono1)
    then have "mp < mp' \<or> (mp = mp' \<and> d0 \<le> d0')"
      using eq mp(5) mp'(5) by auto
    with eq r r' mp(2-4) mp'(2-4) show ?thesis by (auto split: if_splits)
  qed
qed

lemma civil_from_days_bounds:
  assumes "civil_from_days n = (y, m, d)"
  shows "1 \<le> m \<and> m \<le> 12 \<and> 1 \<le> d \<and> d \<le> 31"
proof -
  obtain y0 doy where yd: "year_and_day (n + 719468) = (y0, doy)"
    by (cases "year_and_day (n + 719468)")
  obtain m0 d0 where md: "month_and_day doy = (m0, d0)"
    by (cases "month_and_day doy")
  from assms yd md have "m0 = m" "d0 = d"
    by (auto simp: civil_from_days_def)
  moreover from yd have "0 \<le> doy" "doy \<le> 365"
    by (auto elim: year_and_day_decomp)
  ultimately show ?thesis using month_and_day_bounds [OF md] by simp
qed

lemma civil_from_days_year:
  assumes "civil_from_days n = (y, m, d)" and "-8845 \<le> n" and "n \<le> 2932896"
  shows "1600 \<le> y \<and> y \<le> 9999"
proof -
  let ?z = "n + 719468"
  obtain y0 doy where yd: "year_and_day ?z = (y0, doy)"
    by (cases "year_and_day ?z")
  obtain m0 d0 where md: "month_and_day doy = (m0, d0)"
    by (cases "month_and_day doy")
  from assms(1) yd md have y: "y = (if m0 \<le> 2 then y0 + 1 else y0)"
    by (auto simp: civil_from_days_def)
  from yd obtain c q t where b: "0 \<le> c" "c \<le> 3" "0 \<le> q" "q \<le> 24" "0 \<le> t" "t \<le> 3"
    "0 \<le> doy" "doy \<le> 365"
    and y0: "y0 = 400 * (?z div 146097) + 100 * c + 4 * q + t"
    and doe: "?z mod 146097 = 36524 * c + 1461 * q + 365 * t + doy"
    by (rule year_and_day_decomp)
  have era: "4 \<le> ?z div 146097" "?z div 146097 \<le> 24"
    using assms(2,3) by arith+
  have lo: "1600 \<le> y" using y y0 b era by auto
  have hi: "y \<le> 9999"
  proof (cases "y0 \<le> 9998")
    case True
    then show ?thesis using y by auto
  next
    case False
    with y0 b era have e: "?z div 146097 = 24" and "100 * c + 4 * q + t = 399" by arith+
    with b have "c = 3" "q = 24" "t = 3" by arith+
    with doe have "doy = ?z mod 146097 - 145731" by simp
    moreover have "?z mod 146097 = ?z - 146097 * 24"
      using e by (metis minus_mult_div_eq_mod)
    ultimately have "doy \<le> 305" using assms(3) by simp
    with md b have "3 \<le> m0" by (auto intro: month_from_march)
    with y y0 b era show ?thesis by auto
  qed
  from lo hi show ?thesis ..
qed

text \<open>Some known dates: the epoch, leap days, and the first day of the Gregorian calendar.\<close>

lemma calendar_checks:
  "civil_from_days 0 = (1970, 1, 1)"
  "civil_from_days 11016 = (2000, 2, 29)"
  "civil_from_days 19782 = (2024, 2, 29)"
  "civil_from_days (- 25509) = (1900, 2, 28)"
  "civil_from_days (- 25508) = (1900, 3, 1)"
  "civil_from_days (- 141427) = (1582, 10, 15)"
  by code_simp+

lemma day_number_range:
  fixes now :: int
  assumes "- 764145000000 \<le> now" and "now < 253402281000000"
  shows "-8845 \<le> (now + 19800000) div 86400000" "(now + 19800000) div 86400000 \<le> 2932896"
  using assms by arith+

lemma ist_date_range:
  assumes "ist_date now = (y, m, d)" and "- 764145000000 \<le> now" and "now < 253402281000000"
  shows "1600 \<le> y" "y \<le> 9999" "1 \<le> m" "m \<le> 12" "1 \<le> d" "d \<le> 31"
  using civil_from_days_year [OF assms(1) [unfolded ist_date_def] day_number_range [OF assms(2,3)]]
    civil_from_days_bounds [OF assms(1) [unfolded ist_date_def]]
  by simp_all

lemma ist_date_mono:
  assumes "ist_date now = (y, m, d)" and "ist_date now' = (y', m', d')" and "now \<le> now'"
  shows "\<not> date_less (y', m', d') (y, m, d)"
proof -
  from assms(3) have "(now + 19800000) div 86400000 \<le> (now' + 19800000) div 86400000"
    by (simp add: zdiv_mono1)
  then show ?thesis
    using assms(1,2) unfolding ist_date_def by (rule civil_from_days_mono [rotated 2])
qed

subsection \<open>The parts and the assembled key\<close>

lemma mod_100: "(n::nat) mod 100 = 10 * (n div 10 mod 10) + n mod 10"
  using mod_mult2_eq [of n 10 10] by simp

lemma decimal_1: "n < 10 \<Longrightarrow> decimal n = [digit_char n]"
  by (simp add: decimal.simps)

lemma decimal_2: "10 \<le> n \<Longrightarrow> n < 100 \<Longrightarrow> decimal n = digits2 n"
  by (subst decimal.simps [of n]) (simp add: decimal_1 digits2_def)

lemma decimal_4:
  assumes n: "1000 \<le> n" "n < 10000"
  shows "decimal n = digits4 n"
proof -
  have a: "decimal n = decimal (n div 10) @ [digit_char (n mod 10)]"
    using n by (subst decimal.simps [of n]) simp
  have n10: "\<not> n div 10 < 10" using n by arith
  have n100: "n div 10 div 10 = n div 100" by (simp add: div_mult2_eq [symmetric])
  have b: "decimal (n div 10) = decimal (n div 100) @ [digit_char (n div 10 mod 10)]"
    by (subst decimal.simps [of "n div 10"]) (simp add: n10 n100)
  have c: "decimal (n div 100) = digits2 (n div 100)"
    using n by (intro decimal_2) auto
  have d: "n mod 100 div 10 = n div 10 mod 10" "n mod 100 mod 10 = n mod 10"
    by (simp_all add: mod_100)
  show ?thesis
    by (simp add: a b c digits4_def digits2_def d)
qed

lemma two_digit_digits2: "n < 100 \<Longrightarrow> two_digit n = digits2 n"
  by (cases "n < 10")
    (simp_all add: two_digit_def decimal_1 decimal_2, simp add: digits2_def digit_char_def)

lemma dayKey_of_parts_mdy:
  assumes "y \<noteq> []" and "m \<noteq> []" and "d \<noteq> []"
  shows "dayKey_of_parts
           [(''month'', m), (''literal'', ''/''), (''day'', d), (''literal'', ''/''), (''year'', y)]
         = y @ ''-'' @ m @ ''-'' @ d"
  using assms by (simp add: dayKey_of_parts_def part_value_def)

lemma dayKey_fallback: "dayKey_of_parts [] = ''0000-00-00''"
  by (simp add: dayKey_of_parts_def part_value_def)

lemma getISTDayKey_iso:
  assumes "ist_date now = (y, m, d)" and "1000 \<le> y" and "y \<le> 9999"
    and "1 \<le> m" and "m \<le> 12" and "1 \<le> d" and "d \<le> 31"
  shows "getISTDayKey now = iso_date (y, m, d)"
proof -
  have y: "decimal (nat (if 1 \<le> y then y else 1 - y)) = digits4 (nat y)"
    using assms(2,3) by (simp add: decimal_4)
  have m: "two_digit (nat m) = digits2 (nat m)"
    using assms(4,5) by (simp add: two_digit_digits2)
  have d: "two_digit (nat d) = digits2 (nat d)"
    using assms(6,7) by (simp add: two_digit_digits2)
  have ne: "digits4 (nat y) \<noteq> []" "digits2 (nat m) \<noteq> []" "digits2 (nat d) \<noteq> []"
    by (simp_all add: digits4_def digits2_def)
  show ?thesis
    unfolding getISTDayKey_def formatToParts_def assms(1) prod.case y m d
    by (simp only: dayKey_of_parts_mdy [OF ne] iso_date_def prod.case)
qed

lemma length_iso_date: "length (iso_date t) = 10"
  by (cases t) (simp add: iso_date_def digits4_def digits2_def)

subsection \<open>Fixed-width dates and their order\<close>

lemma digit_codes: "map of_char ''0123456789'' = [48..<58::nat]"
  by (simp add: upt_rec)

lemma of_char_digit:
  assumes "n < 10"
  shows "of_char (digit_char n) = (48 + n :: nat)"
proof -
  have "of_char (digit_char n) = map of_char ''0123456789'' ! n"
    unfolding digit_char_def using assms by (intro nth_map [symmetric]) simp
  also have "\<dots> = [48..<58] ! n"
    by (simp only: digit_codes)
  also have "\<dots> = 48 + n"
    using assms by (intro nth_upt) simp
  finally show ?thesis .
qed

lemma digit_less: "a < 10 \<Longrightarrow> b < 10 \<Longrightarrow> digit_char a < digit_char b \<longleftrightarrow> a < b"
  by (simp add: less_char_def of_char_digit)

lemma digit_eq:
  assumes "a < 10" and "b < 10"
  shows "digit_char a = digit_char b \<longleftrightarrow> a = b"
proof
  assume "digit_char a = digit_char b"
  then have "(of_char (digit_char a) :: nat) = of_char (digit_char b)" by simp
  then show "a = b" using assms by (simp add: of_char_digit)
qed simp

lemma lex_divmod:
  fixes a b k :: nat
  assumes "0 < k"
  shows "(a div k < b div k \<or> (a div k = b div k \<and> a mod k < b mod k)) \<longleftrightarrow> a < b"
proof
  assume l: "a div k < b div k \<or> (a div k = b div k \<and> a mod k < b mod k)"
  show "a < b"
  proof (rule ccontr)
    assume "\<not> a < b"
    then have ba: "b \<le> a" by simp
    then have "b div k \<le> a div k" by (rule div_le_mono)
    with l have e: "a div k = b div k" and m: "a mod k < b mod k" by auto
    have "a = k * (a div k) + a mod k" by simp
    also have "\<dots> = k * (b div k) + a mod k" by (simp only: e)
    also have "\<dots> < k * (b div k) + b mod k" by (rule add_strict_left_mono [OF m])
    also have "\<dots> = b" by simp
    finally show False using ba by simp
  qed
next
  assume ab: "a < b"
  then have le: "a div k \<le> b div k" by (simp add: div_le_mono)
  show "a div k < b div k \<or> (a div k = b div k \<and> a mod k < b mod k)"
  proof (cases "a div k = b div k")
    case True
    from ab have "k * (a div k) + a mod k < k * (b div k) + b mod k"
      by (simp only: mult_div_mod_eq)
    then have "k * (b div k) + a mod k < k * (b div k) + b mod k"
      by (simp only: True)
    then have "a mod k < b mod k" by (simp only: add_less_cancel_left)
    with True show ?thesis by simp
  next
    case False
    with le show ?thesis by simp
  qed
qed

lemma divmod_eq:
  fixes a b k :: nat
  shows "(a div k = b div k \<and> a mod k = b mod k) \<longleftrightarrow> a = b"
  by (metis div_mult_mod_eq)

lemma append_less:
  fixes xs ys :: "'a::linorder list"
  assumes "length xs = length ys"
  shows "xs @ us < ys @ vs \<longleftrightarrow> xs < ys \<or> (xs = ys \<and> us < vs)"
  using assms by (induction xs ys rule: list_induct2) auto

lemma digits2_less:
  assumes "a < 100" and "b < 100"
  shows "digits2 a < digits2 b \<longleftrightarrow> a < b"
proof -
  have d: "a div 10 < 10" "b div 10 < 10" "a mod 10 < 10" "b mod 10 < 10"
    using assms by simp_all
  show ?thesis
    unfolding digits2_def
    by (simp add: digit_less digit_eq d lex_divmod [of 10 a b])
qed

lemma digits2_eq:
  assumes "a < 100" and "b < 100"
  shows "digits2 a = digits2 b \<longleftrightarrow> a = b"
proof -
  have d: "a div 10 < 10" "b div 10 < 10" "a mod 10 < 10" "b mod 10 < 10"
    using assms by simp_all
  show ?thesis
    unfolding digits2_def
    by (simp add: digit_eq d divmod_eq [of a 10 b])
qed

lemma length_digits2: "length (digits2 n) = 2"
  by (simp add: digits2_def)

lemma length_digits4: "length (digits4 n) = 4"
  by (simp add: digits4_def digits2_def)

lemma digits4_less:
  assumes "a < 10000" and "b < 10000"
  shows "digits4 a < digits4 b \<longleftrightarrow> a < b"
proof -
  have d: "a div 100 < 100" "b div 100 < 100" "a mod 100 < 100" "b mod 100 < 100"
    using assms by simp_all
  show ?thesis
    unfolding digits4_def
    by (simp add: append_less length_digits2 digits2_less digits2_eq d lex_divmod [of 100 a b])
qed

lemma digits4_eq:
  assumes "a < 10000" and "b < 10000"
  shows "digits4 a = digits4 b \<longleftrightarrow> a = b"
proof -
  have d: "a div 100 < 100" "b div 100 < 100" "a mod 100 < 100" "b mod 100 < 100"
    using assms by simp_all
  show ?thesis
    unfolding digits4_def
    by (simp add: length_digits2 digits2_eq d divmod_eq [of a 100 b])
qed

lemma iso_date_less:
  assumes "0 \<le> y" "y \<le> 9999" "0 \<le> m" "m \<le> 99" "0 \<le> d" "d \<le> 99"
    and "0 \<le> y'" "y' \<le> 9999" "0 \<le> m'" "m' \<le> 99" "0 \<le> d'" "d' \<le> 99"
  shows "iso_date (y, m, d) < iso_date (y', m', d') \<longleftrightarrow> date_less (y, m, d) (y', m', d')"
proof -
  have n: "nat y < 10000" "nat y' < 10000" "nat m < 100" "nat m' < 100"
    "nat d < 100" "nat d' < 100"
    using assms by simp_all
  have e: "nat y < nat y' \<longleftrightarrow> y < y'" "nat y = nat y' \<longleftrightarrow> y = y'"
    "nat m < nat m' \<longleftrightarrow> m < m'" "nat m = nat m' \<longleftrightarrow> m = m'" "nat d < nat d' \<longleftrightarrow> d < d'"
    using assms by (simp_all only: nat_less_eq_zless eq_nat_nat_iff)
  show ?thesis
    unfolding iso_date_def prod.case date_less.simps
    by (simp add: append_less length_digits4 length_digits2 digits4_less digits4_eq
        digits2_less digits2_eq n e del: zless_nat_conj)
qed

subsection \<open>The day-key of an instant\<close>

lemma getISTDayKey_in_range:
  assumes "- 764145000000 \<le> now" and "now < 253402281000000"
  shows "getISTDayKey now = iso_date (ist_date now)"
proof -
  obtain y m d where t: "ist_date now = (y, m, d)" by (cases "ist_date now")
  from ist_date_range [OF t assms] have "1000 \<le> y" "y \<le> 9999" "1 \<le> m" "m \<le> 12" "1 \<le> d" "d \<le> 31"
    by simp_all
  then have "getISTDayKey now = iso_date (y, m, d)"
    by (rule getISTDayKey_iso [OF t])
  then show ?thesis by (simp only: t)
qed

lemma getISTDayKey_mono:
  assumes "- 764145000000 \<le> now" and "now \<le> now'" and "now' < 253402281000000"
  shows "getISTDayKey now \<le> getISTDayKey now'"
proof -
  obtain y m d where t: "ist_date now = (y, m, d)" by (cases "ist_date now")
  obtain y' m' d' where t': "ist_date now' = (y', m', d')" by (cases "ist_date now'")
  have r: "now < 253402281000000" "- 764145000000 \<le> now'"
    using assms by simp_all
  note b = ist_date_range [OF t assms(1) r(1)]
  note b' = ist_date_range [OF t' r(2) assms(3)]
  have "\<not> date_less (y', m', d') (y, m, d)"
    using t t' assms(2) by (rule ist_date_mono)
  moreover have "iso_date (y', m', d') < iso_date (y, m, d) \<longleftrightarrow> date_less (y', m', d') (y, m, d)"
    using b b' by (intro iso_date_less) simp_all
  ultimately have "\<not> iso_date (y', m', d') < iso_date (y, m, d)"
    by blast
  then have "iso_date (y, m, d) \<le> iso_date (y', m', d')"
    by (rule leI)
  then have "iso_date (ist_date now) \<le> iso_date (ist_date now')"
    by (simp only: t t')
  then show ?thesis
    by (simp only: getISTDayKey_in_range [OF assms(1) r(1)] getISTDayKey_in_range [OF r(2) assms(3)])
qed

lemma ist_date_2024: "ist_date 1704067200000 = (2024, 1, 1)"
  by (simp add: ist_date_def) code_simp

lemma ist_date_9999: "ist_date 253402280999999 = (9999, 12, 31)"
  by (simp add: ist_date_def) code_simp

lemma ist_date_10000: "ist_date 253402281000000 = (10000, 1, 1)"
  by (simp add: ist_date_def) code_simp

lemma decimal_10000: "decimal 10000 = ''10000''"
  by (simp add: decimal.simps digit_char_def)

lemma two_digit_1: "two_digit (Suc 0) = ''01''"
  by (simp add: two_digit_def decimal.simps digit_char_def)

lemma iso_2024: "iso_date (2024, 1, 1) = ''2024-01-01''"
  by (simp add: iso_date_def digits4_def digits2_def digit_char_def)

lemma iso_9999: "iso_date (9999, 12, 31) = ''9999-12-31''"
  by (simp add: iso_date_def digits4_def digits2_def digit_char_def)

lemma key_10000: "getISTDayKey 253402281000000 = ''10000-01-01''"
  by (simp add: getISTDayKey_def formatToParts_def ist_date_10000 decimal_10000 two_digit_1
      dayKey_of_parts_def part_value_def)

lemma key_9999: "getISTDayKey 253402280999999 = ''9999-12-31''"
proof -
  have "getISTDayKey 253402280999999 = iso_date (ist_date 253402280999999)"
    by (rule getISTDayKey_in_range) simp_all
  then show ?thesis by (simp only: ist_date_9999 iso_9999)
qed

text \<open>
  Claim C9, as stated, is about every instant. The formatter writes the year in full, so
  from 1 January of the year 10000 (UTC+5:30) on the day-key has more than ten characters,
  and it sorts before the day-key of the millisecond before.
\<close>

theorem getISTDayKey_year_10000_counterexample:
  "getISTDayKey 253402281000000 = ''10000-01-01'' \<and>
   length (getISTDayKey 253402281000000) = 11 \<and>
   getISTDayKey 253402280999999 = ''9999-12-31'' \<and>
   getISTDayKey 253402281000000 < getISTDayKey 253402280999999"
  by (simp add: key_10000 key_9999)

text \<open>
  Claim C9, amended. For every instant from 14 October 1945, 17:30 UTC (since when the zone
  has been at UTC+5:30) to the end of the year 9999 at UTC+5:30, the day-key is the calendar
  date of the instant at UTC+5:30 in the ten characters \<^verbatim>\<open>YYYY-MM-DD\<close>, and the
  day-key of a later instant of that range does not sort before it. The day-key is a
  function of the instant alone, and \<open>getISTDayKey\<close> returns a string for every instant.
\<close>

theorem getISTDayKey_ist_date:
  assumes "- 764145000000 \<le> now" and "now < 253402281000000"
  shows "getISTDayKey now = iso_date (ist_date now) \<and>
         length (getISTDayKey now) = 10 \<and>
         (\<forall>now'. now \<le> now' \<and> now' < 253402281000000 \<longrightarrow>
            getISTDayKey now \<le> getISTDayKey now')"
  using getISTDayKey_in_range [OF assms] getISTDayKey_mono [OF assms(1)]
  by (simp add: length_iso_date)

theorem getISTDayKey_ist_date_witness:
  "- 764145000000 \<le> (1704067200000::int) \<and> (1704067200000::int) < 253402281000000 \<and>
   getISTDayKey 1704067200000 = ''2024-01-01'' \<and>
   length (getISTDayKey 1704067200000) = 10 \<and>
   getISTDayKey 1704067200000 \<le> getISTDayKey 253402280999999"
proof -
  have a: "- 764145000000 \<le> (1704067200000::int)" and b: "(1704067200000::int) < 253402281000000"
    by simp_all
  note th = getISTDayKey_ist_date [OF a b]
  from th have k: "getISTDayKey 1704067200000 = iso_date (ist_date 1704067200000)"
    by blast
  from th have l: "length (getISTDayKey 1704067200000) = 10"
    by blast
  from th have "(1704067200000::int) \<le> 253402280999999 \<and>
      (253402280999999::int) < 253402281000000 \<longrightarrow>
      getISTDayKey 1704067200000 \<le> getISTDayKey 253402280999999"
    by blast
  then have m: "getISTDayKey 1704067200000 \<le> getISTDayKey 253402280999999"
    by simp
  from k have "getISTDayKey 1704067200000 = ''2024-01-01''"
    by (simp only: ist_date_2024 iso_2024)
  with l m show ?thesis by simp
qed

text \<open>
  With a clock that does not go back, the stored day-key does not go back from one reset to
  the next.
\<close>

lemma reset_key_monotone_clock:
  assumes "- 764145000000 \<le> now" and "now \<le> now'" and "now' < 253402281000000"
    and "applyISTDailyReset (getISTDayKey now) d = Inr d1"
    and "applyISTDailyReset (getISTDayKey now') d1 = Inr d2"
  shows "istDayKey d1 \<le> istDayKey d2"
  using getISTDayKey_mono [OF assms(1-3)] reset_sets_key [OF assms(4)] reset_sets_key [OF assms(5)]
  by simp

end
